theory Spec2Isabelle
  imports Main
begin

section \<open>JavaScript values used by the service\<close>

text \<open>
  An optional string field (\<^verbatim>\<open>jid?: string | null\<close>) is a \<open>string option\<close>;
  \<open>None\<close> stands for both \<^verbatim>\<open>null\<close> and \<^verbatim>\<open>undefined\<close>. JavaScript treats
  the empty string as falsy, so \<^verbatim>\<open>a || b\<close> skips \<open>Some ''''\<close> as well.
\<close>

definition truthy :: "string option \<Rightarrow> bool" where
  "truthy v = (case v of None \<Rightarrow> False | Some s \<Rightarrow> s \<noteq> [])"

definition js_or :: "string option \<Rightarrow> string option \<Rightarrow> string option" where
  "js_or a b = (if truthy a then a else b)"

section \<open>The delivery queue (src/queue/queue.ts)\<close>

record QueuedMessage =
  q_id :: string
  q_jid :: "string option"
  q_phoneNumber :: "string option"
  q_message :: string
  q_retries :: nat
  q_sessionId :: string

text \<open>The class \<^verbatim>\<open>MessageQueue\<close>: one array per session id and the set of ids already dequeued.\<close>

record MessageQueue =
  queues :: "string \<rightharpoonup> QueuedMessage list"
  processedIds :: "string set"

definition emptyMessageQueue :: MessageQueue where
  "emptyMessageQueue = \<lparr>queues = Map.empty, processedIds = {}\<rparr>"

text \<open>\<^verbatim>\<open>const sessionId = message.sessionId || 'default'\<close>\<close>

definition sessionKey :: "QueuedMessage \<Rightarrow> string" where
  "sessionKey m = (if q_sessionId m = [] then ''default'' else q_sessionId m)"

definition enqueue :: "QueuedMessage \<Rightarrow> MessageQueue \<Rightarrow> MessageQueue" where
  "enqueue m mq =
     (if q_id m \<in> processedIds mq then mq
      else
        (case queues mq (sessionKey m) of
           None \<Rightarrow> mq\<lparr>queues := (queues mq)(sessionKey m \<mapsto> [m])\<rparr>
         | Some queue \<Rightarrow>
             if q_id m \<in> q_id ` set queue then mq
             else mq\<lparr>queues := (queues mq)(sessionKey m \<mapsto> queue @ [m])\<rparr>))"

definition dequeue :: "string \<Rightarrow> MessageQueue \<Rightarrow> QueuedMessage option \<times> MessageQueue" where
  "dequeue sessionId mq =
     (case queues mq sessionId of
        None \<Rightarrow> (None, mq)
      | Some [] \<Rightarrow> (None, mq)
      | Some (m # rest) \<Rightarrow>
          (Some m, mq\<lparr>queues := (queues mq)(sessionId \<mapsto> rest),
                       processedIds := insert (q_id m) (processedIds mq)\<rparr>))"

definition queue_size :: "string \<Rightarrow> MessageQueue \<Rightarrow> nat" where
  "queue_size sessionId mq = (case queues mq sessionId of None \<Rightarrow> 0 | Some queue \<Rightarrow> length queue)"

definition isEmpty :: "string \<Rightarrow> MessageQueue \<Rightarrow> bool" where
  "isEmpty sessionId mq = (queue_size sessionId mq = 0)"

definition clear :: "string \<Rightarrow> MessageQueue \<Rightarrow> MessageQueue" where
  "clear sessionId mq = mq\<lparr>queues := (queues mq)(sessionId \<mapsto> [])\<rparr>"

definition clearAllQueues :: "MessageQueue \<Rightarrow> MessageQueue" where
  "clearAllQueues mq = mq\<lparr>queues := Map.empty\<rparr>"

definition clearProcessedIds :: "MessageQueue \<Rightarrow> MessageQueue" where
  "clearProcessedIds mq = mq\<lparr>processedIds := {}\<rparr>"

text \<open>
  The mutating methods of the class as commands, so that a history of calls is a list.
\<close>

datatype queue_call =
    Enqueue QueuedMessage
  | Dequeue string
  | Clear string
  | ClearAllQueues
  | ClearProcessedIds

fun call :: "queue_call \<Rightarrow> MessageQueue \<Rightarrow> MessageQueue" where
  "call (Enqueue m) mq = enqueue m mq"
| "call (Dequeue sessionId) mq = snd (dequeue sessionId mq)"
| "call (Clear sessionId) mq = clear sessionId mq"
| "call ClearAllQueues mq = clearAllQueues mq"
| "call ClearProcessedIds mq = clearProcessedIds mq"

fun calls :: "queue_call list \<Rightarrow> MessageQueue \<Rightarrow> MessageQueue" where
  "calls [] mq = mq"
| "calls (c # cs) mq = calls cs (call c mq)"

text \<open>The entries of one session's queue (none when the session has no array yet).\<close>

definition entries :: "string \<Rightarrow> MessageQueue \<Rightarrow> QueuedMessage list" where
  "entries sessionId mq = (case queues mq sessionId of None \<Rightarrow> [] | Some queue \<Rightarrow> queue)"

definition entries_with_id :: "string \<Rightarrow> string \<Rightarrow> MessageQueue \<Rightarrow> nat" where
  "entries_with_id i sessionId mq = length (filter (\<lambda>x. q_id x = i) (entries sessionId mq))"

text \<open>No id occurs twice in one session's array.\<close>

definition ids_distinct :: "MessageQueue \<Rightarrow> bool" where
  "ids_distinct mq = (\<forall>sessionId. distinct (map q_id (entries sessionId mq)))"

text \<open>Two messages of one session \<open>s\<close>, used to run the operations on concrete inputs.\<close>

definition msgA :: QueuedMessage where
  "msgA = \<lparr>q_id = ''A'', q_jid = None, q_phoneNumber = Some ''391'', q_message = ''a'',
            q_retries = 0, q_sessionId = ''s''\<rparr>"

definition msgB :: QueuedMessage where
  "msgB = \<lparr>q_id = ''B'', q_jid = None, q_phoneNumber = Some ''392'', q_message = ''b'',
            q_retries = 0, q_sessionId = ''s''\<rparr>"

section \<open>The live-event broadcaster (src/events/broadcaster.ts)\<close>

text \<open>
  \<^verbatim>\<open>sseClients\<close> maps a session id to a \<^verbatim>\<open>Set<Response>\<close>. A \<^verbatim>\<open>Response\<close> is
  compared by object identity, so a viewer is a number here. Whether \<^verbatim>\<open>res.write\<close>
  throws is decided by the connection, a parameter of the broadcast.
\<close>

type_synonym viewer = nat

type_synonym sse_clients = "string \<rightharpoonup> viewer set"

text \<open>
  \<^verbatim>\<open>broadcastMessageToSSE\<close> writes to every client of the session and deletes from the
  set, in place, each client whose write throws. The set stays in the map.
\<close>

definition broadcastMessageToSSE :: "(viewer \<Rightarrow> bool) \<Rightarrow> string \<Rightarrow> sse_clients \<Rightarrow> sse_clients" where
  "broadcastMessageToSSE writeThrows sessionId sseClients =
     (case sseClients sessionId of
        None \<Rightarrow> sseClients
      | Some clients \<Rightarrow>
          if clients = {} then sseClients
          else sseClients(sessionId \<mapsto> Set.filter (\<lambda>res. \<not> writeThrows res) clients))"

definition addSSEClient :: "string \<Rightarrow> viewer \<Rightarrow> sse_clients \<Rightarrow> sse_clients" where
  "addSSEClient sessionId response sseClients =
     (case sseClients sessionId of
        None \<Rightarrow> sseClients(sessionId \<mapsto> {response})
      | Some clients \<Rightarrow> sseClients(sessionId \<mapsto> insert response clients))"

definition removeSSEClient :: "string \<Rightarrow> viewer \<Rightarrow> sse_clients \<Rightarrow> sse_clients" where
  "removeSSEClient sessionId response sseClients =
     (case sseClients sessionId of
        None \<Rightarrow> sseClients
      | Some clients \<Rightarrow>
          if clients - {response} = {} then sseClients(sessionId := None)
          else sseClients(sessionId \<mapsto> clients - {response}))"

definition disconnectAllSSEClients :: "sse_clients \<Rightarrow> sse_clients" where
  "disconnectAllSSEClients sseClients = Map.empty"

text \<open>No session id of the map is associated with an empty set of viewers.\<close>

definition no_empty_viewer_set :: "sse_clients \<Rightarrow> bool" where
  "no_empty_viewer_set sseClients = (\<forall>sessionId. sseClients sessionId \<noteq> Some {})"

section \<open>The webhook dispatcher (src/webhooks/notify.ts)\<close>

record WebhookEvent =
  ev_type :: string
  ev_tenant_id :: string
  ev_session_id :: string
  ev_timestamp :: string
  ev_data :: "(string \<times> string) list"

text \<open>The options object passed to \<^verbatim>\<open>fetch\<close>: the target, the headers and the body.\<close>

record request =
  url :: string
  contentType :: string
  xWebhookSource :: string
  xWebhookEvent :: string
  xWebhookTimestamp :: string
  xWebhookAttempt :: string
  xWebhookSignature :: "string option"
  body :: string

text \<open>
  What one \<^verbatim>\<open>fetch\<close> does: a response with \<^verbatim>\<open>response.ok\<close>, a response without it
  (status and status text), or an exception (network error, the 10 s timeout).
\<close>

datatype fetch_result = Ok | NotOk string | FetchThrows string

text \<open>
  What \<^verbatim>\<open>notifyTenant\<close> does to the outside, in order: it sleeps and it posts.
  \<open>Sleep None\<close> is \<^verbatim>\<open>sleep(undefined)\<close>, a timer with no duration given.
\<close>

datatype action = Sleep "nat option" | Fetch request

text \<open>\<^verbatim>\<open>String(n)\<close> for a non-negative integer: its decimal digits.\<close>

fun String_of_nat :: "nat \<Rightarrow> string" where
  "String_of_nat n =
     (if n < 10 then [''0123456789'' ! n]
      else String_of_nat (n div 10) @ [''0123456789'' ! (n mod 10)])"

definition delays :: "nat list" where
  "delays = [0, 5000, 30000, 300000]"

text \<open>\<^verbatim>\<open>delays[attempt]\<close>: reading past the end of a JavaScript array gives \<^verbatim>\<open>undefined\<close>.\<close>

definition delay_at :: "nat \<Rightarrow> nat option" where
  "delay_at attempt = (if attempt < length delays then Some (delays ! attempt) else None)"

text \<open>
  \<^verbatim>\<open>crypto.createHmac('sha256', secret).update(payload).digest('hex')\<close>; the hash
  function of the \<^verbatim>\<open>crypto\<close> library is a parameter.
\<close>

definition generateSignature :: "(string \<Rightarrow> string \<Rightarrow> string) \<Rightarrow> string \<Rightarrow> string \<Rightarrow> string" where
  "generateSignature hmac_sha256_hex payload secret = hmac_sha256_hex secret payload"

definition make_request ::
  "string \<Rightarrow> WebhookEvent \<Rightarrow> string \<Rightarrow> string option \<Rightarrow> nat \<Rightarrow> request" where
  "make_request webhookUrl event payload signature attempt =
     \<lparr>url = webhookUrl,
      contentType = ''application/json'',
      xWebhookSource = ''whatsapp-microservice'',
      xWebhookEvent = ev_type event,
      xWebhookTimestamp = ev_timestamp event,
      xWebhookAttempt = String_of_nat (attempt + 1),
      xWebhookSignature = (if truthy signature then signature else None),
      body = payload\<rparr>"

text \<open>
  The \<^verbatim>\<open>for\<close> loop of \<^verbatim>\<open>notifyTenant\<close> from a given value of \<^verbatim>\<open>attempt\<close>.
  A response that is not ok on the last attempt throws inside the \<^verbatim>\<open>try\<close>, and the
  \<^verbatim>\<open>catch\<close> returns on the last attempt; on an earlier attempt both paths go on to the
  next iteration. \<^verbatim>\<open>maxRetries\<close> is a JavaScript number, here an integer.
\<close>

function attempts ::
  "(nat \<Rightarrow> fetch_result) \<Rightarrow> (nat \<Rightarrow> request) \<Rightarrow> int \<Rightarrow> nat \<Rightarrow> action list" where
  "attempts respond req maxRetries attempt =
     (if int attempt < maxRetries then
        (if attempt > 0 then [Sleep (delay_at attempt)] else [])
        @ [Fetch (req attempt)]
        @ (case respond attempt of
             Ok \<Rightarrow> []
           | NotOk errorMsg \<Rightarrow>
               if int attempt = maxRetries - 1 then []
               else attempts respond req maxRetries (attempt + 1)
           | FetchThrows errorMessage \<Rightarrow>
               if int attempt = maxRetries - 1 then []
               else attempts respond req maxRetries (attempt + 1))
      else [])"
  by pat_completeness auto
termination
  by (relation "measure (\<lambda>(respond, req, maxRetries, attempt). nat (maxRetries - int attempt))") auto

declare attempts.simps [simp del]

text \<open>
  \<^verbatim>\<open>notifyTenant(webhookUrl, event, secret?, maxRetries = 3)\<close>. The serializer
  \<^verbatim>\<open>JSON.stringify\<close>, the hash and the answers of the remote endpoint (one per attempt
  index) are parameters. The result is the sequence of sleeps and posts performed.
\<close>

definition notifyTenant ::
  "(WebhookEvent \<Rightarrow> string) \<Rightarrow> (string \<Rightarrow> string \<Rightarrow> string) \<Rightarrow> (nat \<Rightarrow> fetch_result)
     \<Rightarrow> string \<Rightarrow> WebhookEvent \<Rightarrow> string option \<Rightarrow> int \<Rightarrow> action list" where
  "notifyTenant stringify hmac_sha256_hex respond webhookUrl event secret maxRetries =
     (if webhookUrl = [] then []
      else
        let payload = stringify event;
            signature = (case secret of
                           None \<Rightarrow> None
                         | Some s \<Rightarrow> if s = [] then None
                                     else Some (generateSignature hmac_sha256_hex payload s))
        in attempts respond (make_request webhookUrl event payload signature) maxRetries 0)"

definition maxRetries_default :: int where
  "maxRetries_default = 3"

text \<open>The posts of a run, in order, and what one iteration of the loop contributes.\<close>

fun fetches :: "action list \<Rightarrow> request list" where
  "fetches [] = []"
| "fetches (Sleep d # as) = fetches as"
| "fetches (Fetch r # as) = r # fetches as"

definition iteration :: "(nat \<Rightarrow> request) \<Rightarrow> nat \<Rightarrow> action list" where
  "iteration req attempt =
     (if attempt > 0 then [Sleep (delay_at attempt)] else []) @ [Fetch (req attempt)]"

text \<open>An event and stand-ins for the serializer and the hash, to run the dispatcher.\<close>

definition sentEvent :: WebhookEvent where
  "sentEvent = \<lparr>ev_type = ''message.sent'', ev_tenant_id = ''t'', ev_session_id = ''s'',
                 ev_timestamp = ''2025-01-01T00:00:00.000Z'', ev_data = [(''id'', ''A'')]\<rparr>"

definition stringify_stub :: "WebhookEvent \<Rightarrow> string" where
  "stringify_stub event = ev_type event @ '':'' @ concat (map snd (ev_data event))"

definition hmac_stub :: "string \<Rightarrow> string \<Rightarrow> string" where
  "hmac_stub secret payload = ''h'' @ secret @ payload"

text \<open>An endpoint that answers 500 to the first post and 200 to the next.\<close>

definition failing_once :: "nat \<Rightarrow> fetch_result" where
  "failing_once attempt = (if attempt = 0 then NotOk ''500 Internal Server Error'' else Ok)"

section \<open>The session registry (src/whatsapp/SessionManager.ts)\<close>

text \<open>
  \<^verbatim>\<open>SessionData\<close>. A socket is an object of the driver; its identity is a number, the
  count of sockets made before it.
\<close>

record SessionData =
  socket :: nat
  connected :: bool
  reconnectAttempts :: nat
  authPath :: string
  qrCode :: "string option"

text \<open>
  The state the class works on: its \<^verbatim>\<open>sessions\<close> map, the credential folders on disk
  (each holds the credentials of one pairing, told apart by a number), the reconnects
  handed to \<^verbatim>\<open>setTimeout\<close> with their delay in milliseconds, and the sockets on which
  \<^verbatim>\<open>logout\<close> has succeeded.
\<close>

record SessionManager =
  sessions :: "string \<rightharpoonup> SessionData"
  authFolders :: "string \<rightharpoonup> nat"
  sockets :: nat
  pairings :: nat
  scheduled :: "(string \<times> nat) list"
  loggedOutSockets :: "nat set"

text \<open>
  What the driver and the file system do when called: whether \<^verbatim>\<open>socket.logout()\<close>
  rejects, whether \<^verbatim>\<open>rmSync\<close> throws, and whether making a socket
  (\<^verbatim>\<open>useMultiFileAuthState\<close>, \<^verbatim>\<open>fetchLatestBaileysVersion\<close>, \<^verbatim>\<open>makeWASocket\<close>) rejects.
\<close>

record driver =
  logoutThrows :: bool
  rmSyncThrows :: bool
  createThrows :: bool

datatype error = LogoutError | RmError | CreateError

definition maxReconnectAttempts :: nat where
  "maxReconnectAttempts = 5"

text \<open>\<^verbatim>\<open>DisconnectReason.loggedOut\<close> of the driver library.\<close>

definition loggedOut :: nat where
  "loggedOut = 401"

definition default_authPath :: "string \<Rightarrow> string" where
  "default_authPath sessionId = ''auth_info_'' @ sessionId"

definition socket_logout :: "driver \<Rightarrow> nat \<Rightarrow> SessionManager \<Rightarrow> error + SessionManager" where
  "socket_logout drv sock sm =
     (if logoutThrows drv then Inl LogoutError
      else Inr (sm\<lparr>loggedOutSockets := insert sock (loggedOutSockets sm)\<rparr>))"

text \<open>\<^verbatim>\<open>rmSync(authPath, { recursive: true, force: true })\<close>\<close>

definition rmSync :: "driver \<Rightarrow> string \<Rightarrow> SessionManager \<Rightarrow> error + SessionManager" where
  "rmSync drv path sm =
     (if rmSyncThrows drv then Inl RmError
      else Inr (sm\<lparr>authFolders := (authFolders sm)(path := None)\<rparr>))"

definition existsSync :: "string \<Rightarrow> SessionManager \<Rightarrow> bool" where
  "existsSync path sm = (authFolders sm path \<noteq> None)"

text \<open>
  \<^verbatim>\<open>createSession({ sessionId, authPath = `auth_info_${sessionId}` })\<close>. An existing
  session is returned as it is. Otherwise \<^verbatim>\<open>useMultiFileAuthState\<close> loads the
  credentials of the folder, or starts a new pairing when the folder does not exist, and
  the new \<^verbatim>\<open>SessionData\<close> starts disconnected with \<^verbatim>\<open>reconnectAttempts: 0\<close>.
\<close>

definition createSession ::
  "driver \<Rightarrow> string \<Rightarrow> string option \<Rightarrow> SessionManager \<Rightarrow> error + (nat \<times> SessionManager)" where
  "createSession drv sessionId authPathArg sm =
     (let path = (case authPathArg of None \<Rightarrow> default_authPath sessionId | Some p \<Rightarrow> p)
      in case sessions sm sessionId of
           Some existing \<Rightarrow> Inr (socket existing, sm)
         | None \<Rightarrow>
             if createThrows drv then Inl CreateError
             else
               let folders = (if existsSync path sm then authFolders sm
                              else (authFolders sm)(path \<mapsto> pairings sm));
                   sessionData = \<lparr>socket = sockets sm, connected = False, reconnectAttempts = 0,
                                  authPath = path, qrCode = None\<rparr>
               in Inr (sockets sm,
                       sm\<lparr>sessions := (sessions sm)(sessionId \<mapsto> sessionData),
                          authFolders := folders,
                          sockets := sockets sm + 1,
                          pairings := (if existsSync path sm then pairings sm else pairings sm + 1)\<rparr>))"

text \<open>
  \<^verbatim>\<open>handleLogoutAndRegenerate\<close>: the whole body after the lookup is one \<^verbatim>\<open>try\<close> whose
  \<^verbatim>\<open>catch\<close> only logs, so a throw leaves the state as it is at that point.
\<close>

definition handleLogoutAndRegenerate :: "driver \<Rightarrow> string \<Rightarrow> SessionManager \<Rightarrow> SessionManager" where
  "handleLogoutAndRegenerate drv sessionId sm =
     (case sessions sm sessionId of
        None \<Rightarrow> sm
      | Some sessionData \<Rightarrow>
          let sm1 = sm\<lparr>sessions := (sessions sm)(sessionId := None)\<rparr>
          in case (if existsSync (authPath sessionData) sm1
                   then rmSync drv (authPath sessionData) sm1 else Inr sm1) of
               Inl e \<Rightarrow> sm1
             | Inr sm2 \<Rightarrow>
                 (case createSession drv sessionId (Some (authPath sessionData)) sm2 of
                    Inl e \<Rightarrow> sm2
                  | Inr (sock, sm3) \<Rightarrow> sm3))"

text \<open>\<^verbatim>\<open>reconnectSession\<close>, the callback of the reconnect timer.\<close>

definition reconnectSession :: "driver \<Rightarrow> string \<Rightarrow> SessionManager \<Rightarrow> SessionManager" where
  "reconnectSession drv sessionId sm =
     (case sessions sm sessionId of
        None \<Rightarrow> sm
      | Some sessionData \<Rightarrow>
          let sm1 = sm\<lparr>sessions := (sessions sm)(sessionId := None)\<rparr>
          in case createSession drv sessionId (Some (authPath sessionData)) sm1 of
               Inl e \<Rightarrow> sm1
             | Inr (sock, sm2) \<Rightarrow> sm2)"

text \<open>The \<^verbatim>\<open>connection.update\<close> event of the driver.\<close>

datatype connection = Close | Open | Connecting

record ConnectionUpdate =
  connection :: "connection option"
  statusCode :: "nat option"
  qr :: "string option"

text \<open>
  \<^verbatim>\<open>Math.min(1000 * Math.pow(2, sessionData.reconnectAttempts), 30000)\<close>, read after
  the counter has been incremented.
\<close>

definition reconnect_delay :: "nat \<Rightarrow> nat" where
  "reconnect_delay counter = min (1000 * 2 ^ counter) 30000"

definition set_session :: "string \<Rightarrow> SessionData \<Rightarrow> SessionManager \<Rightarrow> SessionManager" where
  "set_session sessionId sessionData sm = sm\<lparr>sessions := (sessions sm)(sessionId \<mapsto> sessionData)\<rparr>"

text \<open>
  The handler that \<^verbatim>\<open>setupEventHandlers\<close> registers for \<^verbatim>\<open>connection.update\<close>,
  run to its end without another event in between. The storage update and the webhooks
  it sends do not touch this state.
\<close>

definition connectionUpdate :: "driver \<Rightarrow> string \<Rightarrow> ConnectionUpdate \<Rightarrow> SessionManager \<Rightarrow> SessionManager" where
  "connectionUpdate drv sessionId update sm =
     (let sm1 = (if truthy (qr update)
                 then (case sessions sm sessionId of
                         None \<Rightarrow> sm
                       | Some sessionData \<Rightarrow> set_session sessionId (sessionData\<lparr>qrCode := qr update\<rparr>) sm)
                 else sm)
      in case connection update of
           Some Close \<Rightarrow>
             (case sessions sm1 sessionId of
                None \<Rightarrow> handleLogoutAndRegenerate drv sessionId sm1
              | Some found \<Rightarrow>
                  let sessionData = found\<lparr>connected := False\<rparr>;
                      sm2 = set_session sessionId sessionData sm1;
                      shouldReconnect = (statusCode update \<noteq> Some loggedOut)
                  in if shouldReconnect then
                       if reconnectAttempts sessionData < maxReconnectAttempts then
                         let incremented = reconnectAttempts sessionData + 1;
                             delay = reconnect_delay incremented
                         in (set_session sessionId (sessionData\<lparr>reconnectAttempts := incremented\<rparr>) sm2)
                              \<lparr>scheduled := scheduled sm2 @ [(sessionId, delay)]\<rparr>
                       else handleLogoutAndRegenerate drv sessionId sm2
                     else handleLogoutAndRegenerate drv sessionId sm2)
         | Some Open \<Rightarrow>
             (case sessions sm1 sessionId of
                None \<Rightarrow> sm1
              | Some sessionData \<Rightarrow>
                  set_session sessionId
                    (sessionData\<lparr>connected := True, reconnectAttempts := 0, qrCode := None\<rparr>) sm1)
         | Some Connecting \<Rightarrow> sm1
         | None \<Rightarrow> sm1)"

definition getSocket :: "string \<Rightarrow> SessionManager \<Rightarrow> nat option" where
  "getSocket sessionId sm = map_option socket (sessions sm sessionId)"

definition isConnected :: "string \<Rightarrow> SessionManager \<Rightarrow> bool" where
  "isConnected sessionId sm = (case sessions sm sessionId of None \<Rightarrow> False | Some sessionData \<Rightarrow> connected sessionData)"

text \<open>\<^verbatim>\<open>closeSession\<close> awaits the logout outside any \<^verbatim>\<open>try\<close>: its failure propagates.\<close>

definition closeSession :: "driver \<Rightarrow> string \<Rightarrow> SessionManager \<Rightarrow> error + SessionManager" where
  "closeSession drv sessionId sm =
     (case sessions sm sessionId of
        None \<Rightarrow> Inr sm
      | Some sessionData \<Rightarrow>
          (case socket_logout drv (socket sessionData) sm of
             Inl e \<Rightarrow> Inl e
           | Inr sm1 \<Rightarrow> Inr (sm1\<lparr>sessions := (sessions sm1)(sessionId := None)\<rparr>)))"

text \<open>
  \<^verbatim>\<open>deleteSession\<close>: the logout and the removal of the folder each sit in a
  \<^verbatim>\<open>try\<close> whose \<^verbatim>\<open>catch\<close> logs and goes on. The folder is
  \<^verbatim>\<open>sessionData?.authPath || `auth_info_${sessionId}`\<close>.
\<close>

definition deleteSession :: "driver \<Rightarrow> string \<Rightarrow> SessionManager \<Rightarrow> error + SessionManager" where
  "deleteSession drv sessionId sm =
     (let sessionData = sessions sm sessionId;
          sm1 = (case sessionData of
                   None \<Rightarrow> sm
                 | Some found \<Rightarrow>
                     (case socket_logout drv (socket found) sm of
                        Inl e \<Rightarrow> sm
                      | Inr closed \<Rightarrow> closed));
          sm2 = sm1\<lparr>sessions := (sessions sm1)(sessionId := None)\<rparr>;
          path = (case sessionData of
                    None \<Rightarrow> default_authPath sessionId
                  | Some found \<Rightarrow>
                      if authPath found = [] then default_authPath sessionId else authPath found)
      in if existsSync path sm2
         then (case rmSync drv path sm2 of Inl e \<Rightarrow> Inr sm2 | Inr sm3 \<Rightarrow> Inr sm3)
         else Inr sm2)"

text \<open>The folder \<^verbatim>\<open>deleteSession\<close> removes for a session id.\<close>

definition credential_folder :: "string \<Rightarrow> SessionManager \<Rightarrow> string" where
  "credential_folder sessionId sm =
     (case sessions sm sessionId of
        None \<Rightarrow> default_authPath sessionId
      | Some found \<Rightarrow> if authPath found = [] then default_authPath sessionId else authPath found)"

text \<open>
  What happens to a session over time: the driver reports a connection update, or a
  reconnect timer fires.
\<close>

datatype session_event = Update ConnectionUpdate | ReconnectTimer

fun session_step :: "driver \<Rightarrow> string \<Rightarrow> session_event \<Rightarrow> SessionManager \<Rightarrow> SessionManager" where
  "session_step drv sessionId (Update update) sm = connectionUpdate drv sessionId update sm"
| "session_step drv sessionId ReconnectTimer sm = reconnectSession drv sessionId sm"

fun session_run :: "driver \<Rightarrow> string \<Rightarrow> session_event list \<Rightarrow> SessionManager \<Rightarrow> SessionManager" where
  "session_run drv sessionId [] sm = sm"
| "session_run drv sessionId (e # es) sm = session_run drv sessionId es (session_step drv sessionId e sm)"

text \<open>A driver on which nothing fails, and the update of a recoverable loss.\<close>

definition reliable :: driver where
  "reliable = \<lparr>logoutThrows = False, rmSyncThrows = False, createThrows = False\<rparr>"

definition link_lost :: ConnectionUpdate where
  "link_lost = \<lparr>connection = Some Close, statusCode = Some 428, qr = None\<rparr>"

text \<open>Session \<open>s\<close>, paired (pairing 0, socket 0) and connected.\<close>

definition connected_s :: SessionManager where
  "connected_s =
     \<lparr>sessions = [''s'' \<mapsto> \<lparr>socket = 0, connected = True, reconnectAttempts = 0,
                            authPath = ''auth_info_s'', qrCode = None\<rparr>],
      authFolders = [''auth_info_s'' \<mapsto> 0],
      sockets = 1, pairings = 1, scheduled = [], loggedOutSockets = {}\<rparr>"

section \<open>Storage and the orchestrator (src/supabase, src/whatsapp/sendMessage.ts, src/index.ts)\<close>

datatype status = QUEUED | SENT | FAILED | RECEIVED

datatype platform = WHATSAPP | SMS

text \<open>A row of the \<^verbatim>\<open>messages\<close> table (interface \<^verbatim>\<open>Message\<close>); the time stamp is a number.\<close>

record Message =
  m_id :: string
  m_jid :: "string option"
  m_phone_number :: "string option"
  m_message :: string
  m_status :: status
  m_platform :: platform
  m_session_id :: "string option"
  m_created_at :: nat
  m_error_message :: "string option"

text \<open>
  What the collaborators answer during one poll or one tick: the error of a storage update
  on a row id (if any), whether the storage query fails, the outcome of
  \<^verbatim>\<open>socket.sendMessage\<close> (the message of the exception, if it throws), the driver's
  mapping from phone-number ids to LIDs, and the tenant and webhook URL of the session.
\<close>

record services =
  updateError :: "string \<Rightarrow> string option"
  selectFails :: bool
  socketSendError :: "string option"
  getLIDForPN :: "string \<Rightarrow> string option"
  tenantOfSession :: "string option"
  webhookUrlOfSession :: "string option"
  now :: string

record queue_config =
  pollIntervalMs :: nat
  maxMessagesPerMinute :: nat
  sendIntervalMs :: nat
  maxRetries :: nat

text \<open>\<^verbatim>\<open>config.queue\<close> of src/config/index.ts.\<close>

definition config_queue :: queue_config where
  "config_queue = \<lparr>pollIntervalMs = 10000, maxMessagesPerMinute = 3, sendIntervalMs = 20000,
                    maxRetries = 3\<rparr>"

text \<open>
  \<^verbatim>\<open>markMessageFailed\<close> and \<^verbatim>\<open>markMessageSent\<close> update the rows with the given id
  and throw the error the storage reports.
\<close>

definition markMessageFailed ::
  "services \<Rightarrow> string \<Rightarrow> string \<Rightarrow> Message list \<Rightarrow> string + Message list" where
  "markMessageFailed srv messageId errorMessage table =
     (case updateError srv messageId of
        Some e \<Rightarrow> Inl e
      | None \<Rightarrow>
          Inr (map (\<lambda>row. if m_id row = messageId
                           then row\<lparr>m_status := FAILED, m_error_message := Some errorMessage\<rparr>
                           else row) table))"

definition markMessageSent ::
  "services \<Rightarrow> string \<Rightarrow> string option \<Rightarrow> Message list \<Rightarrow> string + Message list" where
  "markMessageSent srv messageId sentJid table =
     (case updateError srv messageId of
        Some e \<Rightarrow> Inl e
      | None \<Rightarrow>
          Inr (map (\<lambda>row. if m_id row = messageId
                           then (if truthy sentJid then row\<lparr>m_status := SENT, m_jid := sentJid\<rparr>
                                 else row\<lparr>m_status := SENT\<rparr>)
                           else row) table))"

text \<open>
  \<^verbatim>\<open>getQueuedMessages\<close>: the queued WhatsApp rows of the session, oldest first, at
  most 50; the empty list when the query fails.
\<close>

definition getQueuedMessages :: "services \<Rightarrow> string \<Rightarrow> Message list \<Rightarrow> Message list" where
  "getQueuedMessages srv sessionId table =
     (if selectFails srv then []
      else take 50 (sort_key m_created_at
             (filter (\<lambda>row. m_status row = QUEUED \<and> m_platform row = WHATSAPP
                             \<and> m_session_id row = Some sessionId) table)))"

text \<open>\<^verbatim>\<open>isPnUser\<close> of the driver library: a phone-number id ends in the user server name.\<close>

definition isPnUser :: "string \<Rightarrow> bool" where
  "isPnUser jid = (drop (length jid - length ''@s.whatsapp.net'') jid = ''@s.whatsapp.net'')"

text \<open>
  \<^verbatim>\<open>sendMessage(socket, recipient, message)\<close>: the id the text was sent to, or the
  message of the exception. The second component is the call made on the socket.
\<close>

definition sendMessage ::
  "services \<Rightarrow> nat \<Rightarrow> string \<Rightarrow> string \<Rightarrow> (string + string) \<times> (nat \<times> string \<times> string)" where
  "sendMessage srv sock recipient message =
     (let withServer = (if CHR ''@'' \<in> set recipient then recipient
                        else recipient @ ''@s.whatsapp.net'');
          targetJid = (if isPnUser withServer
                       then (case getLIDForPN srv withServer of
                               None \<Rightarrow> withServer
                             | Some lid \<Rightarrow> if lid = [] then withServer else lid)
                       else withServer)
      in ((case socketSendError srv of Some e \<Rightarrow> Inl e | None \<Rightarrow> Inr targetJid),
          (sock, targetJid, message)))"

text \<open>
  The module state of src/index.ts with what it reaches: the queue, the two lock maps, the
  session registry, the storage table, the calls made on sockets and the events handed to
  \<^verbatim>\<open>notifyTenant\<close> with their target.
\<close>

record Orchestrator =
  messageQueue :: MessageQueue
  pollingLocks :: "string \<rightharpoonup> bool"
  sendingLocks :: "string \<rightharpoonup> bool"
  sessionManager :: SessionManager
  messages :: "Message list"
  socketCalls :: "(nat \<times> string \<times> string) list"
  notified :: "(string \<times> WebhookEvent) list"

definition lockHeld :: "(string \<rightharpoonup> bool) \<Rightarrow> string \<Rightarrow> bool" where
  "lockHeld locks sessionId = (locks sessionId = Some True)"

text \<open>
  The webhook after a send or a final failure: sent only when the session has both a tenant
  and a webhook URL. \<^verbatim>\<open>notifyTenant\<close> catches every error of its own.
\<close>

definition notify_message ::
  "services \<Rightarrow> string \<Rightarrow> string \<Rightarrow> (string \<times> string) list \<Rightarrow> Orchestrator \<Rightarrow> Orchestrator" where
  "notify_message srv kind sessionId payloadData st =
     (if truthy (tenantOfSession srv) \<and> truthy (webhookUrlOfSession srv)
      then st\<lparr>notified := notified st @
                 [(the (webhookUrlOfSession srv),
                   \<lparr>ev_type = kind, ev_tenant_id = the (tenantOfSession srv),
                    ev_session_id = sessionId, ev_timestamp = now srv, ev_data = payloadData\<rparr>)]\<rparr>
      else st)"

text \<open>
  The inner \<^verbatim>\<open>try\<close> of \<^verbatim>\<open>processDripQueue\<close>: send, mark the row sent, notify.
  \<open>Inl\<close> carries the message of the exception and the state reached when it was thrown.
\<close>

definition try_send ::
  "services \<Rightarrow> string \<Rightarrow> QueuedMessage \<Rightarrow> string \<Rightarrow> nat \<Rightarrow> Orchestrator
     \<Rightarrow> (string \<times> Orchestrator) + Orchestrator" where
  "try_send srv sessionId message recipient sock st =
     (case sendMessage srv sock recipient (q_message message) of
        (result, socketCall) \<Rightarrow>
          let st1 = st\<lparr>socketCalls := socketCalls st @ [socketCall]\<rparr>
          in case result of
               Inl errorMessage \<Rightarrow> Inl (errorMessage, st1)
             | Inr jid \<Rightarrow>
                 (case markMessageSent srv (q_id message) (Some jid) (messages st1) of
                    Inl errorMessage \<Rightarrow> Inl (errorMessage, st1)
                  | Inr table \<Rightarrow>
                      Inr (notify_message srv ''message.sent'' sessionId
                             [(''id'', q_id message), (''to'', recipient),
                              (''message'', q_message message), (''jid'', jid)]
                             (st1\<lparr>messages := table\<rparr>))))"

text \<open>
  The inner \<^verbatim>\<open>catch\<close>: below the retry ceiling the counter is incremented and the
  message is handed to \<^verbatim>\<open>enqueue\<close>; otherwise the row is marked failed and the tenant
  notified. A throw of \<^verbatim>\<open>markMessageFailed\<close> here reaches the outer \<^verbatim>\<open>catch\<close>,
  which logs.
\<close>

definition on_send_error ::
  "queue_config \<Rightarrow> services \<Rightarrow> string \<Rightarrow> QueuedMessage \<Rightarrow> string \<Rightarrow> string \<Rightarrow> Orchestrator
     \<Rightarrow> Orchestrator" where
  "on_send_error cfg srv sessionId message recipient errorMessage st =
     (if q_retries message < maxRetries cfg
      then st\<lparr>messageQueue := enqueue (message\<lparr>q_retries := q_retries message + 1\<rparr>) (messageQueue st)\<rparr>
      else (case markMessageFailed srv (q_id message) errorMessage (messages st) of
              Inl e \<Rightarrow> st
            | Inr table \<Rightarrow>
                notify_message srv ''message.failed'' sessionId
                  [(''id'', q_id message), (''to'', recipient),
                   (''message'', q_message message), (''error'', errorMessage)]
                  (st\<lparr>messages := table\<rparr>)))"

text \<open>
  \<^verbatim>\<open>processDripQueue\<close>, one tick of the drip scheduler, run to its end. The two
  guards return before the lock is taken; every later path releases it.
\<close>

definition processDripQueue :: "queue_config \<Rightarrow> services \<Rightarrow> string \<Rightarrow> Orchestrator \<Rightarrow> Orchestrator" where
  "processDripQueue cfg srv sessionId st =
     (if lockHeld (sendingLocks st) sessionId \<or> isEmpty sessionId (messageQueue st) then st
      else if \<not> isConnected sessionId (sessionManager st) then st
      else
        let st1 = st\<lparr>sendingLocks := (sendingLocks st)(sessionId \<mapsto> True)\<rparr>;
            st4 =
              (case dequeue sessionId (messageQueue st1) of
                 (None, mq) \<Rightarrow> st1\<lparr>messageQueue := mq\<rparr>
               | (Some message, mq) \<Rightarrow>
                   let st2 = st1\<lparr>messageQueue := mq\<rparr>;
                       recipient = js_or (q_jid message) (q_phoneNumber message)
                   in if \<not> truthy recipient then
                        (case markMessageFailed srv (q_id message) ''No recipient identifier''
                                (messages st2) of
                           Inl e \<Rightarrow> st2
                         | Inr table \<Rightarrow> st2\<lparr>messages := table\<rparr>)
                      else
                        (case getSocket sessionId (sessionManager st2) of
                           None \<Rightarrow> st2
                         | Some sock \<Rightarrow>
                             (case try_send srv sessionId message (the recipient) sock st2 of
                                Inr st3 \<Rightarrow> st3
                              | Inl (errorMessage, st3) \<Rightarrow>
                                  on_send_error cfg srv sessionId message (the recipient)
                                    errorMessage st3)))
        in st4\<lparr>sendingLocks := (sendingLocks st4)(sessionId \<mapsto> False)\<rparr>)"

text \<open>
  The loop of \<^verbatim>\<open>pollSupabaseForMessages\<close> over the rows it fetched. A throw of
  \<^verbatim>\<open>markMessageFailed\<close> leaves the loop for the \<^verbatim>\<open>catch\<close>, which logs.
\<close>

definition has_recipient :: "Message \<Rightarrow> bool" where
  "has_recipient msg = truthy (js_or (m_jid msg) (m_phone_number msg))"

definition queuedMessage :: "string \<Rightarrow> Message \<Rightarrow> QueuedMessage" where
  "queuedMessage sessionId msg =
     \<lparr>q_id = m_id msg, q_jid = m_jid msg, q_phoneNumber = m_phone_number msg,
      q_message = m_message msg, q_retries = 0,
      q_sessionId = (if truthy (m_session_id msg) then the (m_session_id msg) else sessionId)\<rparr>"

fun poll_loop :: "services \<Rightarrow> string \<Rightarrow> Message list \<Rightarrow> Orchestrator \<Rightarrow> Orchestrator" where
  "poll_loop srv sessionId [] st = st"
| "poll_loop srv sessionId (msg # rest) st =
     (if \<not> has_recipient msg then
        (case markMessageFailed srv (m_id msg) ''No recipient identifier provided'' (messages st) of
           Inl e \<Rightarrow> st
         | Inr table \<Rightarrow> poll_loop srv sessionId rest (st\<lparr>messages := table\<rparr>))
      else
        poll_loop srv sessionId rest
          (st\<lparr>messageQueue := enqueue (queuedMessage sessionId msg) (messageQueue st)\<rparr>))"

definition pollSupabaseForMessages :: "services \<Rightarrow> string \<Rightarrow> Orchestrator \<Rightarrow> Orchestrator" where
  "pollSupabaseForMessages srv sessionId st =
     (if lockHeld (pollingLocks st) sessionId then st
      else
        let st1 = st\<lparr>pollingLocks := (pollingLocks st)(sessionId \<mapsto> True)\<rparr>;
            st2 = poll_loop srv sessionId (getQueuedMessages srv sessionId (messages st1)) st1
        in st2\<lparr>pollingLocks := (pollingLocks st2)(sessionId \<mapsto> False)\<rparr>)"

text \<open>Collaborators that all succeed, and one whose socket throws on a send.\<close>

definition working :: services where
  "working = \<lparr>updateError = (\<lambda>messageId. None), selectFails = False, socketSendError = None,
               getLIDForPN = (\<lambda>jid. None), tenantOfSession = None, webhookUrlOfSession = None,
               now = ''2025-01-01T00:00:00.000Z''\<rparr>"

definition send_failing :: services where
  "send_failing = working\<lparr>socketSendError := Some ''Connection Closed''\<rparr>"

definition queued_row :: "string \<Rightarrow> string option \<Rightarrow> nat \<Rightarrow> Message" where
  "queued_row i phone t = \<lparr>m_id = i, m_jid = None, m_phone_number = phone, m_message = ''hello'',
                   m_status = QUEUED, m_platform = WHATSAPP, m_session_id = Some ''s'',
                   m_created_at = t, m_error_message = None\<rparr>"

text \<open>
  Session \<open>s\<close> connected, the rows A, B, C queued in storage in this order, nothing in
  memory yet.
\<close>

definition start_s :: Orchestrator where
  "start_s = \<lparr>messageQueue = emptyMessageQueue, pollingLocks = Map.empty,
               sendingLocks = Map.empty, sessionManager = connected_s,
               messages = [queued_row ''A'' (Some ''391'') 1, queued_row ''B'' (Some ''392'') 2,
                           queued_row ''C'' (Some ''393'') 3],
               socketCalls = [], notified = []\<rparr>"

text \<open>Every row of the table with a given id is marked failed for want of a recipient.\<close>

definition marked_failed :: "string \<Rightarrow> Message list \<Rightarrow> bool" where
  "marked_failed i table =
     (\<forall>row \<in> set table. m_id row = i \<longrightarrow>
        m_status row = FAILED \<and> m_error_message row = Some ''No recipient identifier provided'')"

text \<open>
  Six recoverable losses in a row, each followed by the reconnect the handler scheduled,
  and the same six losses with no timer firing in between.
\<close>

definition six_losses_with_reconnects :: "session_event list" where
  "six_losses_with_reconnects =
     [Update link_lost, ReconnectTimer, Update link_lost, ReconnectTimer,
      Update link_lost, ReconnectTimer, Update link_lost, ReconnectTimer,
      Update link_lost, ReconnectTimer, Update link_lost, ReconnectTimer]"

definition six_losses_at_once :: "session_event list" where
  "six_losses_at_once =
     [Update link_lost, Update link_lost, Update link_lost,
      Update link_lost, Update link_lost, Update link_lost]"

text \<open>The scenario of the retry: a ceiling of one retry, the rows A, B, C polled into memory.\<close>

definition one_retry :: queue_config where
  "one_retry = config_queue\<lparr>maxRetries := 1\<rparr>"

definition polled_s :: Orchestrator where
  "polled_s = pollSupabaseForMessages working ''s'' start_s"

text \<open>The first tick, on which the send of A throws, followed by \<open>n\<close> ticks that succeed.\<close>

definition after_ticks :: "nat \<Rightarrow> Orchestrator" where
  "after_ticks n =
     (processDripQueue one_retry working ''s'' ^^ n)
       (processDripQueue one_retry send_failing ''s'' polled_s)"

text \<open>
  A table whose oldest queued row has no recipient, and a storage that rejects every update.
\<close>

definition unaddressed :: Orchestrator where
  "unaddressed = start_s\<lparr>messages := [queued_row ''N'' None 1, queued_row ''A'' (Some ''391'') 2]\<rparr>"

definition storage_down :: services where
  "storage_down = working\<lparr>updateError := (\<lambda>messageId. Some ''timeout'')\<rparr>"

text \<open>
  A table of two queued rows without recipient, and a storage that accepts the update of
  the first and rejects the update of the second.
\<close>

definition two_unaddressed :: Orchestrator where
  "two_unaddressed = start_s\<lparr>messages := [queued_row ''N1'' None 1, queued_row ''N2'' None 2]\<rparr>"

definition rejecting_N2 :: services where
  "rejecting_N2 = working\<lparr>updateError := (\<lambda>messageId. if messageId = ''N2'' then Some ''timeout'' else None)\<rparr>"

section \<open>Properties of the delivery queue\<close>

lemma enqueue_processedIds: "processedIds (enqueue m mq) = processedIds mq"
  by (simp add: enqueue_def split: option.splits)

lemma dequeue_processedIds: "processedIds mq \<subseteq> processedIds (snd (dequeue sessionId mq))"
  by (auto simp: dequeue_def split: option.splits list.splits)

lemma call_keeps_processed:
  "c \<noteq> ClearProcessedIds \<Longrightarrow> i \<in> processedIds mq \<Longrightarrow> i \<in> processedIds (call c mq)"
  using dequeue_processedIds [of mq]
  by (cases c) (auto simp: enqueue_processedIds clear_def clearAllQueues_def)

lemma calls_keep_processed:
  "ClearProcessedIds \<notin> set cs \<Longrightarrow> i \<in> processedIds mq \<Longrightarrow> i \<in> processedIds (calls cs mq)"
proof (induction cs arbitrary: mq)
  case Nil
  then show ?case by simp
next
  case (Cons c cs)
  from Cons.prems have "c \<noteq> ClearProcessedIds" and rest: "ClearProcessedIds \<notin> set cs"
    by auto
  with Cons.prems(2) have "i \<in> processedIds (call c mq)"
    by (simp add: call_keeps_processed)
  with rest show ?case
    by (simp add: Cons.IH)
qed

lemma dequeue_marks_processed:
  "dequeue sessionId mq = (Some m, mq') \<Longrightarrow> q_id m \<in> processedIds mq'"
  by (auto simp: dequeue_def split: option.splits list.splits)

lemma enqueue_processed_noop: "q_id m \<in> processedIds mq \<Longrightarrow> enqueue m mq = mq"
  by (simp add: enqueue_def)

text \<open>
  C2. Once \<open>dequeue\<close> has returned a message, its id is in the processed-id set, and it
  stays there through every later history of queue calls that contains no
  \<open>clearProcessedIds\<close>; enqueueing any message with that id afterwards (a retry of the
  same message with a larger retry counter included) returns the queue state as it was:
  no queue and no processed id changes.
\<close>

theorem dequeued_id_blocks_enqueue:
  assumes "dequeue sessionId mq = (Some m, mq')"
    and "ClearProcessedIds \<notin> set cs"
    and "q_id m' = q_id m"
  shows "q_id m \<in> processedIds (calls cs mq') \<and> enqueue m' (calls cs mq') = calls cs mq'"
proof -
  from assms(1) have "q_id m \<in> processedIds mq'"
    by (rule dequeue_marks_processed)
  with assms(2) have kept: "q_id m \<in> processedIds (calls cs mq')"
    by (rule calls_keep_processed)
  with assms(3) have "enqueue m' (calls cs mq') = calls cs mq'"
    by (simp add: enqueue_processed_noop)
  with kept show ?thesis by simp
qed

theorem dequeued_id_blocks_enqueue_witness:
  "dequeue ''s'' (enqueue msgA emptyMessageQueue) = (Some msgA, \<lparr>queues = [''s'' \<mapsto> []], processedIds = {''A''}\<rparr>)
   \<and> ''A'' \<in> processedIds (calls [Enqueue msgB, Dequeue ''s'', Clear ''s'', ClearAllQueues]
         \<lparr>queues = [''s'' \<mapsto> []], processedIds = {''A''}\<rparr>)
   \<and> enqueue (msgA\<lparr>q_retries := 1\<rparr>)
         (calls [Enqueue msgB, Dequeue ''s'', Clear ''s'', ClearAllQueues]
            \<lparr>queues = [''s'' \<mapsto> []], processedIds = {''A''}\<rparr>)
       = calls [Enqueue msgB, Dequeue ''s'', Clear ''s'', ClearAllQueues]
            \<lparr>queues = [''s'' \<mapsto> []], processedIds = {''A''}\<rparr>"
proof -
  have d: "dequeue ''s'' (enqueue msgA emptyMessageQueue)
             = (Some msgA, \<lparr>queues = [''s'' \<mapsto> []], processedIds = {''A''}\<rparr>)"
    by (simp add: dequeue_def enqueue_def emptyMessageQueue_def msgA_def sessionKey_def)
  have c: "ClearProcessedIds \<notin> set [Enqueue msgB, Dequeue ''s'', Clear ''s'', ClearAllQueues]"
    by simp
  have i: "q_id (msgA\<lparr>q_retries := 1\<rparr>) = q_id msgA"
    by simp
  have a: "q_id msgA = ''A''"
    by (simp add: msgA_def)
  from dequeued_id_blocks_enqueue [OF d c i] d a show ?thesis
    by simp
qed

lemma ids_distinct_empty: "ids_distinct emptyMessageQueue"
  by (simp add: ids_distinct_def entries_def emptyMessageQueue_def)

lemma ids_distinct_enqueue: "ids_distinct mq \<Longrightarrow> ids_distinct (enqueue m mq)"
  by (auto simp: ids_distinct_def entries_def enqueue_def split: option.splits)

lemma ids_distinct_dequeue: "ids_distinct mq \<Longrightarrow> ids_distinct (snd (dequeue sessionId mq))"
proof -
  assume inv: "ids_distinct mq"
  show ?thesis
  proof (cases "queues mq sessionId")
    case None
    with inv show ?thesis by (simp add: dequeue_def)
  next
    case (Some queue)
    show ?thesis
    proof (cases queue)
      case Nil
      with Some inv show ?thesis by (simp add: dequeue_def)
    next
      case (Cons m rest)
      from inv have "distinct (map q_id (entries sessionId mq))"
        by (simp add: ids_distinct_def)
      with Some Cons have "distinct (map q_id rest)"
        by (simp add: entries_def)
      with inv Some Cons show ?thesis
        by (simp add: ids_distinct_def entries_def dequeue_def)
    qed
  qed
qed

lemma ids_distinct_call: "ids_distinct mq \<Longrightarrow> ids_distinct (call c mq)"
proof (cases c)
  case (Enqueue m)
  assume "ids_distinct mq"
  with Enqueue show ?thesis by (simp add: ids_distinct_enqueue)
next
  case (Dequeue sessionId)
  assume "ids_distinct mq"
  with Dequeue show ?thesis by (simp add: ids_distinct_dequeue)
next
  case (Clear sessionId)
  assume "ids_distinct mq"
  with Clear show ?thesis by (simp add: ids_distinct_def entries_def clear_def)
next
  case ClearAllQueues
  then show ?thesis by (simp add: ids_distinct_def entries_def clearAllQueues_def)
next
  case ClearProcessedIds
  assume "ids_distinct mq"
  with ClearProcessedIds show ?thesis
    by (simp add: ids_distinct_def entries_def clearProcessedIds_def)
qed

lemma ids_distinct_calls: "ids_distinct mq \<Longrightarrow> ids_distinct (calls cs mq)"
  by (induction cs arbitrary: mq) (simp_all add: ids_distinct_call)

lemma distinct_id_once:
  "distinct (map q_id xs) \<Longrightarrow> i \<in> q_id ` set xs \<Longrightarrow> length (filter (\<lambda>x. q_id x = i) xs) = 1"
proof (induction xs)
  case Nil
  then show ?case by simp
next
  case (Cons x xs)
  show ?case
  proof (cases "q_id x = i")
    case True
    from Cons.prems(1) have "q_id x \<notin> q_id ` set xs"
      by simp
    with True have "\<forall>y\<in>set xs. q_id y \<noteq> i"
      by (metis imageI)
    then have "filter (\<lambda>y. q_id y = i) xs = []"
      by (simp add: filter_empty_conv)
    with True show ?thesis by simp
  next
    case False
    with Cons show ?thesis by auto
  qed
qed

lemma enqueue_present_noop:
  "q_id m \<in> q_id ` set (entries (sessionKey m) mq) \<Longrightarrow> enqueue m mq = mq"
  by (auto simp: enqueue_def entries_def split: option.splits)

lemma enqueue_admits:
  "q_id m \<notin> processedIds mq \<Longrightarrow> q_id m \<in> q_id ` set (entries (sessionKey m) (enqueue m mq))"
  by (auto simp: enqueue_def entries_def split: option.splits)

lemma enqueue_twice:
  assumes "q_id m' = q_id m" and "sessionKey m' = sessionKey m"
  shows "enqueue m' (enqueue m mq) = enqueue m mq"
proof (cases "q_id m \<in> processedIds mq")
  case True
  with assms(1) show ?thesis by (simp add: enqueue_processed_noop)
next
  case False
  then have "q_id m \<in> q_id ` set (entries (sessionKey m) (enqueue m mq))"
    by (rule enqueue_admits)
  with assms have "q_id m' \<in> q_id ` set (entries (sessionKey m') (enqueue m mq))"
    by simp
  then show ?thesis by (rule enqueue_present_noop)
qed

text \<open>
  C6. In every state the queue can reach from the empty one, enqueueing a message whose
  id is already in its session's array, or already recorded as processed, returns the
  state unchanged, and an id that is in the array is there exactly once. Enqueueing the
  same id for the same session twice in a row gives the state of the first call, and,
  unless the id was already processed, that state holds exactly one entry for the id.
\<close>

theorem enqueue_idempotent:
  assumes "mq = calls cs emptyMessageQueue"
    and "q_id m' = q_id m"
    and "sessionKey m' = sessionKey m"
  shows "enqueue m' (enqueue m mq) = enqueue m mq
    \<and> (q_id m \<in> q_id ` set (entries (sessionKey m) mq)
         \<longrightarrow> enqueue m mq = mq \<and> entries_with_id (q_id m) (sessionKey m) mq = 1)
    \<and> (q_id m \<in> processedIds mq \<longrightarrow> enqueue m mq = mq)
    \<and> (q_id m \<notin> processedIds mq
         \<longrightarrow> entries_with_id (q_id m) (sessionKey m) (enqueue m' (enqueue m mq)) = 1)"
proof -
  from assms(1) have inv: "ids_distinct mq"
    by (simp add: ids_distinct_calls ids_distinct_empty)
  have twice: "enqueue m' (enqueue m mq) = enqueue m mq"
    using assms(2,3) by (rule enqueue_twice)
  have once: "entries_with_id (q_id m) (sessionKey m) q = 1"
    if "ids_distinct q" and "q_id m \<in> q_id ` set (entries (sessionKey m) q)" for q
    using that by (simp add: entries_with_id_def ids_distinct_def distinct_id_once)
  have present: "q_id m \<in> q_id ` set (entries (sessionKey m) mq)
      \<longrightarrow> enqueue m mq = mq \<and> entries_with_id (q_id m) (sessionKey m) mq = 1"
    using inv by (simp add: enqueue_present_noop once)
  have processed: "q_id m \<in> processedIds mq \<longrightarrow> enqueue m mq = mq"
    by (simp add: enqueue_processed_noop)
  have fresh: "q_id m \<notin> processedIds mq
      \<longrightarrow> entries_with_id (q_id m) (sessionKey m) (enqueue m' (enqueue m mq)) = 1"
  proof
    assume "q_id m \<notin> processedIds mq"
    then have "q_id m \<in> q_id ` set (entries (sessionKey m) (enqueue m mq))"
      by (rule enqueue_admits)
    moreover from inv have "ids_distinct (enqueue m mq)"
      by (rule ids_distinct_enqueue)
    ultimately show "entries_with_id (q_id m) (sessionKey m) (enqueue m' (enqueue m mq)) = 1"
      by (simp add: twice once)
  qed
  from twice present processed fresh show ?thesis by simp
qed

theorem enqueue_idempotent_witness:
  "enqueue (msgA\<lparr>q_retries := 1\<rparr>) (enqueue msgA (calls [Enqueue msgB] emptyMessageQueue))
     = enqueue msgA (calls [Enqueue msgB] emptyMessageQueue)
   \<and> entries_with_id (q_id msgA) (sessionKey msgA)
       (enqueue (msgA\<lparr>q_retries := 1\<rparr>) (enqueue msgA (calls [Enqueue msgB] emptyMessageQueue))) = 1
   \<and> enqueue msgB (calls [Enqueue msgB] emptyMessageQueue) = calls [Enqueue msgB] emptyMessageQueue
   \<and> entries_with_id (q_id msgB) (sessionKey msgB) (calls [Enqueue msgB] emptyMessageQueue) = 1"
proof -
  have i: "q_id (msgA\<lparr>q_retries := 1\<rparr>) = q_id msgA"
    and k: "sessionKey (msgA\<lparr>q_retries := 1\<rparr>) = sessionKey msgA"
    by (simp_all add: sessionKey_def)
  have fresh: "q_id msgA \<notin> processedIds (calls [Enqueue msgB] emptyMessageQueue)"
    by (simp add: enqueue_def emptyMessageQueue_def)
  have present: "q_id msgB \<in> q_id ` set (entries (sessionKey msgB) (calls [Enqueue msgB] emptyMessageQueue))"
    by (simp add: enqueue_def emptyMessageQueue_def entries_def)
  from enqueue_idempotent [where cs = "[Enqueue msgB]", OF refl i k]
    enqueue_idempotent [where cs = "[Enqueue msgB]" and m = msgB and m' = msgB, OF refl refl refl]
    fresh present
  show ?thesis by blast
qed

section \<open>Properties of the webhook dispatcher\<close>

lemma fetches_append: "fetches (xs @ ys) = fetches xs @ fetches ys"
  by (induction xs rule: fetches.induct) simp_all

lemma fetches_iteration: "fetches (iteration req i) = [req i]"
  by (simp add: iteration_def)

lemma fetches_iterations: "fetches (concat (map (iteration req) is)) = map req is"
  by (induction "is") (simp_all add: fetches_append fetches_iteration)

lemma attempts_shape:
  "\<exists>k. attempts respond req M a = concat (map (iteration req) [a..<a + k])
      \<and> (int a < M \<longrightarrow> int (a + k) \<le> M)
      \<and> (\<not> int a < M \<longrightarrow> k = 0)
      \<and> (\<forall>i. a \<le> i \<and> i + 1 < a + k \<longrightarrow> respond i \<noteq> Ok)
      \<and> (int (a + k) < M \<longrightarrow> 0 < k \<and> respond (a + k - 1) = Ok)"
proof (induction respond req M a rule: attempts.induct)
  case (1 respond req M a)
  show ?case
  proof (cases "int a < M")
    case False
    then have "attempts respond req M a = []"
      by (simp add: attempts.simps)
    with False show ?thesis
      by (intro exI [of _ 0]) auto
  next
    case True
    show ?thesis
    proof (cases "respond a = Ok \<or> int a = M - 1")
      case stop: True
      then have "attempts respond req M a = iteration req a"
        using True by (auto simp: attempts.simps [of respond req M a] iteration_def split: fetch_result.splits)
      with True stop show ?thesis
        by (intro exI [of _ 1]) auto
    next
      case go: False
      then have unfold: "attempts respond req M a = iteration req a @ attempts respond req M (a + 1)"
        using True by (auto simp: attempts.simps [of respond req M a] iteration_def split: fetch_result.splits)
      from go True have "\<exists>k. attempts respond req M (a + 1) = concat (map (iteration req) [a + 1..<a + 1 + k])
      \<and> (int (a + 1) < M \<longrightarrow> int (a + 1 + k) \<le> M)
      \<and> (\<not> int (a + 1) < M \<longrightarrow> k = 0)
      \<and> (\<forall>i. a + 1 \<le> i \<and> i + 1 < a + 1 + k \<longrightarrow> respond i \<noteq> Ok)
      \<and> (int (a + 1 + k) < M \<longrightarrow> 0 < k \<and> respond (a + 1 + k - 1) = Ok)"
      proof (cases "respond a")
        case Ok
        with go show ?thesis by simp
      next
        case (NotOk errorMsg)
        with go True show ?thesis by (intro "1.IH"(1)) auto
      next
        case (FetchThrows errorMessage)
        with go True show ?thesis by (intro "1.IH"(2)) auto
      qed
      then obtain k where k: "attempts respond req M (a + 1) = concat (map (iteration req) [a + 1..<a + 1 + k])"
        "int (a + 1) < M \<longrightarrow> int (a + 1 + k) \<le> M"
        "\<not> int (a + 1) < M \<longrightarrow> k = 0"
        "\<forall>i. a + 1 \<le> i \<and> i + 1 < a + 1 + k \<longrightarrow> respond i \<noteq> Ok"
        "int (a + 1 + k) < M \<longrightarrow> 0 < k \<and> respond (a + 1 + k - 1) = Ok"
        by blast
      have next_lt: "int (a + 1) < M" using go True by linarith
      have range: "[a..<a + (k + 1)] = a # [a + 1..<a + 1 + k]"
        by (simp add: upt_conv_Cons del: upt_Suc)
      have shape: "attempts respond req M a = concat (map (iteration req) [a..<a + (k + 1)])"
        by (simp only: unfold k(1) range list.map concat.simps)
      have unsuccessful: "\<forall>i. a \<le> i \<and> i + 1 < a + (k + 1) \<longrightarrow> respond i \<noteq> Ok"
      proof (intro allI impI)
        fix i assume i: "a \<le> i \<and> i + 1 < a + (k + 1)"
        show "respond i \<noteq> Ok"
        proof (cases "i = a")
          case True
          with go show ?thesis by simp
        next
          case False
          with i k(4) show ?thesis by simp
        qed
      qed
      from shape unsuccessful k(2,5) next_lt True show ?thesis
        by (intro exI [of _ "k + 1"]) (simp add: add.assoc)
    qed
  qed
qed


lemma delay_at_schedule: "i < 4 \<Longrightarrow> delay_at i = Some ([0, 5000, 30000, 300000] ! i)"
  by (simp add: delay_at_def delays_def)

text \<open>
  C3 (as amended). For a configured URL, \<open>notifyTenant\<close> posts at most \<open>maxRetries\<close>
  times (3 by default). The run is, for each attempt index \<open>i\<close> from 0, a sleep of
  \<open>delays[i]\<close> when \<open>i > 0\<close> (nothing before the first post) and then the post; for
  \<open>i < 4\<close> that delay is entry \<open>i\<close> of 0, 5000, 30000, 300000 ms. The post of index
  \<open>i\<close> carries X-Webhook-Attempt \<open>i + 1\<close> (the header counts from one), the serialized
  payload as body and, when a non-empty secret is given, the same X-Webhook-Signature: the
  hex HMAC of that payload. No post follows a successful one, and the run ends before
  \<open>maxRetries\<close> posts only after a success.
\<close>

theorem notifyTenant_attempts:
  fixes stringify hmac_sha256_hex respond webhookUrl event secret maxRetries
  defines "run \<equiv> notifyTenant stringify hmac_sha256_hex respond webhookUrl event secret maxRetries"
  defines "n \<equiv> length (fetches run)"
  assumes "webhookUrl \<noteq> []"
  shows "int n \<le> max 0 maxRetries
    \<and> run = concat (map (\<lambda>i. (if 0 < i then [Sleep (delay_at i)] else []) @ [Fetch (fetches run ! i)]) [0..<n])
    \<and> (\<forall>i. i < 4 \<longrightarrow> delay_at i = Some ([0, 5000, 30000, 300000] ! i))
    \<and> (\<forall>i. i < n \<longrightarrow> xWebhookAttempt (fetches run ! i) = String_of_nat (i + 1)
                    \<and> body (fetches run ! i) = stringify event
                    \<and> (\<forall>s. secret = Some s \<and> s \<noteq> [] \<and> hmac_sha256_hex s (stringify event) \<noteq> []
                         \<longrightarrow> xWebhookSignature (fetches run ! i) = Some (hmac_sha256_hex s (stringify event))))
    \<and> (\<forall>i. i + 1 < n \<longrightarrow> respond i \<noteq> Ok)
    \<and> (int n < maxRetries \<longrightarrow> 0 < n \<and> respond (n - 1) = Ok)"
proof -
  define signature where "signature =
    (case secret of None \<Rightarrow> None
     | Some s \<Rightarrow> if s = [] then None else Some (generateSignature hmac_sha256_hex (stringify event) s))"
  define req where "req = make_request webhookUrl event (stringify event) signature"
  have run_eq: "run = attempts respond req maxRetries 0"
    using assms(3) by (simp add: run_def notifyTenant_def req_def signature_def Let_def)
  from attempts_shape [of respond req maxRetries 0] obtain k where
    k: "attempts respond req maxRetries 0 = concat (map (iteration req) [0..<0 + k])
      \<and> (int 0 < maxRetries \<longrightarrow> int (0 + k) \<le> maxRetries)
      \<and> (\<not> int 0 < maxRetries \<longrightarrow> k = 0)
      \<and> (\<forall>i. 0 \<le> i \<and> i + 1 < 0 + k \<longrightarrow> respond i \<noteq> Ok)
      \<and> (int (0 + k) < maxRetries \<longrightarrow> 0 < k \<and> respond (0 + k - 1) = Ok)"
    by (rule exE)
  from k have shape: "attempts respond req maxRetries 0 = concat (map (iteration req) [0..<k])"
    and bound: "0 < maxRetries \<longrightarrow> int k \<le> maxRetries"
    and none: "\<not> 0 < maxRetries \<longrightarrow> k = 0"
    and failed: "\<forall>i. i + 1 < k \<longrightarrow> respond i \<noteq> Ok"
    and early: "int k < maxRetries \<longrightarrow> 0 < k \<and> respond (k - 1) = Ok"
    by simp_all
  have posts: "fetches run = map req [0..<k]"
    using run_eq shape by (simp add: fetches_iterations)
  then have n_k: "n = k"
    by (simp add: n_def)
  have ith: "fetches run ! i = req i" if "i < n" for i
    using that posts n_k by simp
  have c1: "int n \<le> max 0 maxRetries"
    using bound none n_k by (cases "0 < maxRetries") simp_all
  have "concat (map (iteration req) [0..<n])
      = concat (map (\<lambda>i. (if 0 < i then [Sleep (delay_at i)] else []) @ [Fetch (fetches run ! i)]) [0..<n])"
    by (rule arg_cong [where f = concat], rule map_cong) (simp_all add: iteration_def ith)
  with run_eq shape n_k have c2:
    "run = concat (map (\<lambda>i. (if 0 < i then [Sleep (delay_at i)] else []) @ [Fetch (fetches run ! i)]) [0..<n])"
    by simp
  have c3: "\<forall>i. i < 4 \<longrightarrow> delay_at i = Some ([0, 5000, 30000, 300000] ! i)"
    by (simp add: delay_at_schedule)
  have c4: "\<forall>i. i < n \<longrightarrow> xWebhookAttempt (fetches run ! i) = String_of_nat (i + 1)
                    \<and> body (fetches run ! i) = stringify event
                    \<and> (\<forall>s. secret = Some s \<and> s \<noteq> [] \<and> hmac_sha256_hex s (stringify event) \<noteq> []
                         \<longrightarrow> xWebhookSignature (fetches run ! i) = Some (hmac_sha256_hex s (stringify event)))"
    by (simp add: ith req_def make_request_def signature_def generateSignature_def truthy_def)
  have c5: "\<forall>i. i + 1 < n \<longrightarrow> respond i \<noteq> Ok"
    using failed n_k by simp
  have c6: "int n < maxRetries \<longrightarrow> 0 < n \<and> respond (n - 1) = Ok"
    using early n_k by simp
  from c1 c2 c3 c4 c5 c6 show ?thesis by blast
qed

lemma run_failing_once:
  "notifyTenant stringify_stub hmac_stub failing_once ''http://t'' sentEvent (Some ''k'') maxRetries_default
   = [Fetch (make_request ''http://t'' sentEvent ''message.sent:A'' (Some ''hkmessage.sent:A'') 0),
      Sleep (Some 5000),
      Fetch (make_request ''http://t'' sentEvent ''message.sent:A'' (Some ''hkmessage.sent:A'') 1)]"
  by (simp add: notifyTenant_def attempts.simps generateSignature_def delay_at_def delays_def
      failing_once_def stringify_stub_def hmac_stub_def sentEvent_def maxRetries_default_def Let_def)

theorem notifyTenant_attempts_witness:
  "''http://t'' \<noteq> []
   \<and> length (fetches (notifyTenant stringify_stub hmac_stub failing_once ''http://t'' sentEvent (Some ''k'') maxRetries_default)) = 2
   \<and> (1::nat) < 4 \<and> delay_at 1 = Some 5000
   \<and> xWebhookAttempt (fetches (notifyTenant stringify_stub hmac_stub failing_once ''http://t'' sentEvent (Some ''k'') maxRetries_default) ! 1) = ''2''
   \<and> xWebhookSignature (fetches (notifyTenant stringify_stub hmac_stub failing_once ''http://t'' sentEvent (Some ''k'') maxRetries_default) ! 1)
       = Some (hmac_stub ''k'' (stringify_stub sentEvent))
   \<and> xWebhookSignature (fetches (notifyTenant stringify_stub hmac_stub failing_once ''http://t'' sentEvent (Some ''k'') maxRetries_default) ! 0)
       = Some (hmac_stub ''k'' (stringify_stub sentEvent))
   \<and> failing_once 0 \<noteq> Ok \<and> failing_once 1 = Ok"
proof -
  have u: "''http://t'' \<noteq> []" by simp
  have n: "length (fetches (notifyTenant stringify_stub hmac_stub failing_once ''http://t'' sentEvent (Some ''k'') maxRetries_default)) = 2"
    by (simp add: run_failing_once)
  have h: "hmac_stub ''k'' (stringify_stub sentEvent) \<noteq> []"
    by (simp add: hmac_stub_def)
  from notifyTenant_attempts [OF u, of stringify_stub hmac_stub failing_once sentEvent "Some ''k''" maxRetries_default]
  show ?thesis
    unfolding n using h
    by (simp add: numeral_2_eq_2 less_Suc_eq all_conj_distrib maxRetries_default_def)
qed

text \<open>
  With \<open>maxRetries = 5\<close> and an endpoint that always answers 500, the first post (index 0)
  carries X-Webhook-Attempt 1, not 0, and the fifth post (index 4) is preceded by a sleep of
  \<open>delays[4]\<close>, which is past the end of the four-entry schedule.
\<close>

theorem notifyTenant_schedule_counterexample:
  "notifyTenant stringify_stub hmac_stub (\<lambda>attempt. NotOk ''500'') ''http://t'' sentEvent None 5
   = [Fetch (make_request ''http://t'' sentEvent ''message.sent:A'' None 0),
      Sleep (Some 5000),
      Fetch (make_request ''http://t'' sentEvent ''message.sent:A'' None 1),
      Sleep (Some 30000),
      Fetch (make_request ''http://t'' sentEvent ''message.sent:A'' None 2),
      Sleep (Some 300000),
      Fetch (make_request ''http://t'' sentEvent ''message.sent:A'' None 3),
      Sleep None,
      Fetch (make_request ''http://t'' sentEvent ''message.sent:A'' None 4)]
   \<and> xWebhookAttempt (make_request ''http://t'' sentEvent ''message.sent:A'' None 0) = ''1''
   \<and> xWebhookAttempt (make_request ''http://t'' sentEvent ''message.sent:A'' None 4) = ''5''
   \<and> String_of_nat 0 = ''0''
   \<and> \<not> 4 < length delays
   \<and> delay_at 4 = None"
  by (simp add: notifyTenant_def attempts.simps delay_at_def delays_def
      stringify_stub_def sentEvent_def make_request_def Let_def)

section \<open>Properties of the broadcaster\<close>

lemma addSSEClient_no_empty:
  "no_empty_viewer_set sseClients \<Longrightarrow> no_empty_viewer_set (addSSEClient sessionId response sseClients)"
  by (auto simp: no_empty_viewer_set_def addSSEClient_def split: option.splits)

lemma removeSSEClient_no_empty:
  "no_empty_viewer_set sseClients \<Longrightarrow> no_empty_viewer_set (removeSSEClient sessionId response sseClients)"
  by (auto simp: no_empty_viewer_set_def removeSSEClient_def split: option.splits)

lemma disconnectAll_no_empty: "no_empty_viewer_set (disconnectAllSSEClients sseClients)"
  by (simp add: no_empty_viewer_set_def disconnectAllSSEClients_def)

text \<open>
  C7. Adding and removing a viewer keep the map free of empty sets, but a broadcast does
  not: with one viewer on session \<open>s\<close> whose write throws, the broadcast deletes the viewer
  and leaves \<open>s\<close> in the map with the empty set.
\<close>

theorem broadcast_leaves_empty_viewer_set:
  "no_empty_viewer_set (addSSEClient ''s'' 7 Map.empty)
   \<and> broadcastMessageToSSE (\<lambda>res. True) ''s'' (addSSEClient ''s'' 7 Map.empty) = [''s'' \<mapsto> {}]
   \<and> \<not> no_empty_viewer_set (broadcastMessageToSSE (\<lambda>res. True) ''s'' (addSSEClient ''s'' 7 Map.empty))"
  by (auto simp: no_empty_viewer_set_def addSSEClient_def broadcastMessageToSSE_def)

section \<open>Properties of the session registry\<close>

lemmas sm_defs = connectionUpdate_def set_session_def reconnect_delay_def Let_def connected_s_def
  link_lost_def maxReconnectAttempts_def loggedOut_def truthy_def reliable_def
  reconnectSession_def createSession_def existsSync_def handleLogoutAndRegenerate_def rmSync_def

lemma createSession_scheduled:
  "createSession drv sessionId p sm = Inr (sock, sm') \<Longrightarrow> scheduled sm' = scheduled sm"
  by (auto simp: createSession_def Let_def split: option.splits if_splits)

lemma handleLogout_scheduled: "scheduled (handleLogoutAndRegenerate drv sessionId sm) = scheduled sm"
  by (auto simp: handleLogoutAndRegenerate_def rmSync_def Let_def
      split: option.splits sum.splits if_splits dest: createSession_scheduled)

lemma reconnectSession_scheduled: "scheduled (reconnectSession drv sessionId sm) = scheduled sm"
  by (auto simp: reconnectSession_def Let_def split: option.splits sum.splits dest: createSession_scheduled)

lemma reconnect_delay_le: "reconnect_delay n \<le> 30000"
  by (simp add: reconnect_delay_def)

lemma connectionUpdate_scheduled:
  "scheduled (connectionUpdate drv sessionId update sm) = scheduled sm
   \<or> (\<exists>n. scheduled (connectionUpdate drv sessionId update sm) = scheduled sm @ [(sessionId, reconnect_delay n)])"
  by (auto simp: connectionUpdate_def set_session_def handleLogout_scheduled Let_def
      split: option.splits connection.splits)

lemma session_step_scheduled:
  "\<forall>timer \<in> set (scheduled (session_step drv sessionId event sm)).
     timer \<in> set (scheduled sm) \<or> snd timer \<le> 30000"
proof (cases event)
  case (Update u)
  with connectionUpdate_scheduled [of drv sessionId u sm] show ?thesis
    by (auto simp: reconnect_delay_le)
next
  case ReconnectTimer
  then show ?thesis by (simp add: reconnectSession_scheduled)
qed

lemma session_run_scheduled:
  "\<forall>timer \<in> set (scheduled (session_run drv sessionId events sm)).
     timer \<in> set (scheduled sm) \<or> snd timer \<le> 30000"
proof (induction events arbitrary: sm)
  case Nil
  then show ?case by simp
next
  case (Cons e es)
  show ?case
  proof
    fix timer
    assume "timer \<in> set (scheduled (session_run drv sessionId (e # es) sm))"
    then have "timer \<in> set (scheduled (session_step drv sessionId e sm)) \<or> snd timer \<le> 30000"
      using Cons.IH [of "session_step drv sessionId e sm"] by auto
    then show "timer \<in> set (scheduled sm) \<or> snd timer \<le> 30000"
      using session_step_scheduled [of drv sessionId e sm] by auto
  qed
qed

lemma loss_increments_counter:
  assumes "sessions sm sessionId = Some sessionData"
    and "reconnectAttempts sessionData < maxReconnectAttempts"
    and "connection update = Some Close"
    and "statusCode update \<noteq> Some loggedOut"
  shows "map_option reconnectAttempts (sessions (connectionUpdate drv sessionId update sm) sessionId)
           = Some (reconnectAttempts sessionData + 1)"
    and "map_option connected (sessions (connectionUpdate drv sessionId update sm) sessionId) = Some False"
  using assms
  by (simp_all add: connectionUpdate_def set_session_def Let_def)

lemma open_resets_counter:
  assumes "sessions sm sessionId = Some sessionData" and "connection opened = Some Open"
  shows "\<exists>established. sessions (connectionUpdate drv sessionId opened sm) sessionId = Some established
           \<and> reconnectAttempts established = 0 \<and> connected established
           \<and> scheduled (connectionUpdate drv sessionId opened sm) = scheduled sm"
  using assms
  by (simp add: connectionUpdate_def set_session_def Let_def)

lemma loss_schedules:
  assumes "sessions sm sessionId = Some sessionData"
    and "reconnectAttempts sessionData < maxReconnectAttempts"
    and "connection update = Some Close"
    and "statusCode update \<noteq> Some loggedOut"
  shows "scheduled (connectionUpdate drv sessionId update sm)
           = scheduled sm @ [(sessionId, min (1000 * 2 ^ (reconnectAttempts sessionData + 1)) 30000)]"
  using assms
  by (simp add: connectionUpdate_def set_session_def reconnect_delay_def Let_def)

text \<open>
  C5 (as amended). On a recoverable connection loss with the counter below 5, the handler
  first increments the counter, stores it in the session, and schedules the reconnect after
  min(1000 * 2^c, 30000) ms, where \<open>c\<close>, between 1 and 5, is the counter after the
  increment. The first loss after the link was established is therefore followed by a
  reconnect after 2000 ms. Whatever happens to a session, no reconnect is scheduled with a
  delay above 30000 ms.
\<close>

theorem reconnect_backoff:
  assumes "sessions sm sessionId = Some sessionData"
    and "reconnectAttempts sessionData < maxReconnectAttempts"
    and "connection update = Some Close"
    and "statusCode update \<noteq> Some loggedOut"
  shows "scheduled (connectionUpdate drv sessionId update sm)
           = scheduled sm @ [(sessionId, min (1000 * 2 ^ (reconnectAttempts sessionData + 1)) 30000)]
    \<and> (\<forall>events. \<forall>timer \<in> set (scheduled (session_run drv sessionId events sm)).
          timer \<in> set (scheduled sm) \<or> snd timer \<le> 30000)
    \<and> (\<exists>c. map_option reconnectAttempts (sessions (connectionUpdate drv sessionId update sm) sessionId) = Some c
          \<and> c = reconnectAttempts sessionData + 1 \<and> 1 \<le> c \<and> c \<le> 5
          \<and> scheduled (connectionUpdate drv sessionId update sm)
               = scheduled sm @ [(sessionId, min (1000 * 2 ^ c) 30000)])
    \<and> (\<forall>opened. connection opened = Some Open \<longrightarrow>
          scheduled (connectionUpdate drv sessionId update (connectionUpdate drv sessionId opened sm))
            = scheduled sm @ [(sessionId, 2000)])"
proof -
  have one: "scheduled (connectionUpdate drv sessionId update sm)
           = scheduled sm @ [(sessionId, min (1000 * 2 ^ (reconnectAttempts sessionData + 1)) 30000)]"
    using assms by (rule loss_schedules)
  have cap: "\<forall>events. \<forall>timer \<in> set (scheduled (session_run drv sessionId events sm)).
          timer \<in> set (scheduled sm) \<or> snd timer \<le> 30000"
    using session_run_scheduled [of drv sessionId _ sm] by blast
  have stored: "map_option reconnectAttempts (sessions (connectionUpdate drv sessionId update sm) sessionId)
           = Some (reconnectAttempts sessionData + 1)"
    using assms by (rule loss_increments_counter(1))
  have range: "1 \<le> reconnectAttempts sessionData + 1 \<and> reconnectAttempts sessionData + 1 \<le> 5"
    using assms(2) by (simp add: maxReconnectAttempts_def)
  have counter: "\<exists>c. map_option reconnectAttempts (sessions (connectionUpdate drv sessionId update sm) sessionId) = Some c
          \<and> c = reconnectAttempts sessionData + 1 \<and> 1 \<le> c \<and> c \<le> 5
          \<and> scheduled (connectionUpdate drv sessionId update sm)
               = scheduled sm @ [(sessionId, min (1000 * 2 ^ c) 30000)]"
    using stored range one by blast
  have first: "scheduled (connectionUpdate drv sessionId update (connectionUpdate drv sessionId opened sm))
            = scheduled sm @ [(sessionId, 2000)]" if "connection opened = Some Open" for opened
  proof -
    from open_resets_counter [OF assms(1) that, of drv] obtain established where
      e: "sessions (connectionUpdate drv sessionId opened sm) sessionId = Some established"
      and z: "reconnectAttempts established = 0"
      and s: "scheduled (connectionUpdate drv sessionId opened sm) = scheduled sm"
      by blast
    from z have "reconnectAttempts established < maxReconnectAttempts"
      by (simp add: maxReconnectAttempts_def)
    from loss_schedules [OF e this assms(3,4), of drv] z s show ?thesis
      by simp
  qed
  from one cap counter first show ?thesis by blast
qed

theorem reconnect_backoff_witness:
  "sessions connected_s ''s'' = Some \<lparr>socket = 0, connected = True, reconnectAttempts = 0,
                            authPath = ''auth_info_s'', qrCode = None\<rparr>
   \<and> scheduled (connectionUpdate reliable ''s'' link_lost connected_s) = [(''s'', 2000)]
   \<and> map_option reconnectAttempts (sessions (connectionUpdate reliable ''s'' link_lost connected_s) ''s'') = Some 1
   \<and> snd (''s'', 2000::nat) \<le> 30000"
proof -
  have s: "sessions connected_s ''s'' = Some \<lparr>socket = 0, connected = True, reconnectAttempts = 0,
                            authPath = ''auth_info_s'', qrCode = None\<rparr>"
    by (simp add: connected_s_def)
  have b: "reconnectAttempts \<lparr>socket = 0, connected = True, reconnectAttempts = 0,
                            authPath = ''auth_info_s'', qrCode = None\<rparr> < maxReconnectAttempts"
    by (simp add: maxReconnectAttempts_def)
  have c: "connection link_lost = Some Close" and d: "statusCode link_lost \<noteq> Some loggedOut"
    by (simp_all add: link_lost_def loggedOut_def)
  have e: "scheduled connected_s = []"
    by (simp add: connected_s_def)
  from reconnect_backoff [OF s b c d, of reliable] e s show ?thesis
    by auto
qed

text \<open>
  The first loss after a successful connection finds the counter at 0 and schedules the
  reconnect after 2000 ms, where min(base * 2^0, cap) is 1000 ms.
\<close>

theorem first_reconnect_counterexample:
  "reconnectAttempts (the (sessions connected_s ''s'')) = 0
   \<and> scheduled (connectionUpdate reliable ''s'' link_lost connected_s) = [(''s'', 2000)]
   \<and> min (1000 * 2 ^ 0) 30000 = (1000::nat)"
  by (simp add: sm_defs)

text \<open>
  C9 (as amended). \<open>deleteSession\<close> never fails, whether or not the logout or the removal
  of the folder throws and whether or not the session is in the registry. Afterwards the
  session is not in the registry and every other session is as before. The credential
  folder is gone when \<open>rmSync\<close> does not throw; when it throws, the error is swallowed and
  the folders are as they were.
\<close>

theorem deleteSession_completes:
  "\<exists>sm'. deleteSession drv sessionId sm = Inr sm'
      \<and> sessions sm' sessionId = None
      \<and> (\<forall>other. other \<noteq> sessionId \<longrightarrow> sessions sm' other = sessions sm other)
      \<and> (\<not> rmSyncThrows drv \<longrightarrow> \<not> existsSync (credential_folder sessionId sm) sm')
      \<and> (rmSyncThrows drv \<longrightarrow> authFolders sm' = authFolders sm)"
  by (auto simp: deleteSession_def credential_folder_def socket_logout_def rmSync_def existsSync_def
      Let_def split: option.splits)

theorem deleteSession_completes_witness:
  "deleteSession (reliable\<lparr>logoutThrows := True\<rparr>) ''s'' connected_s
     = Inr (connected_s\<lparr>sessions := Map.empty, authFolders := Map.empty\<rparr>)
   \<and> deleteSession (reliable\<lparr>logoutThrows := True\<rparr>) ''s'' (connected_s\<lparr>sessions := Map.empty, authFolders := Map.empty\<rparr>)
     = Inr (connected_s\<lparr>sessions := Map.empty, authFolders := Map.empty\<rparr>)"
  using deleteSession_completes [of "reliable\<lparr>logoutThrows := True\<rparr>" "''s''" connected_s]
  by (simp add: deleteSession_def credential_folder_def socket_logout_def rmSync_def existsSync_def
      Let_def connected_s_def reliable_def default_authPath_def)

text \<open>
  With a file system on which \<open>rmSync\<close> throws, \<open>deleteSession\<close> returns normally with
  the session removed and the credentials of pairing 0 still in the folder.
\<close>

theorem deleteSession_rm_counterexample:
  "deleteSession (reliable\<lparr>rmSyncThrows := True\<rparr>) ''s'' connected_s
     = Inr (connected_s\<lparr>sessions := Map.empty, loggedOutSockets := {0}\<rparr>)
   \<and> authFolders (connected_s\<lparr>sessions := Map.empty, loggedOutSockets := {0}\<rparr>) ''auth_info_s'' = Some 0"
  by (simp add: deleteSession_def credential_folder_def socket_logout_def rmSync_def existsSync_def
      Let_def connected_s_def reliable_def default_authPath_def)

text \<open>A reconnect that succeeds in making a socket leaves the session with counter 0.\<close>

lemma reconnectSession_counter:
  assumes "sessions sm sessionId = Some sessionData" and "\<not> createThrows drv"
  shows "map_option reconnectAttempts (sessions (reconnectSession drv sessionId sm) sessionId) = Some 0"
  using assms by (simp add: reconnectSession_def createSession_def Let_def)

text \<open>
  C4. Session \<open>s\<close> loses its link six times in a row, each loss followed by the reconnect
  that the handler scheduled. Every reconnect replaces the session record by a new one whose
  counter is 0, so each loss finds the counter at 0, raises it to 1 and schedules a reconnect
  after 2000 ms. The ceiling of 5 is never reached: the credentials of pairing 0 are still in
  the folder and no new pairing was started.
\<close>

theorem reconnect_resets_the_counter:
  "sessions (session_run reliable ''s'' six_losses_with_reconnects connected_s) ''s''
     = Some \<lparr>socket = 6, connected = False, reconnectAttempts = 0,
             authPath = ''auth_info_s'', qrCode = None\<rparr>
   \<and> authFolders (session_run reliable ''s'' six_losses_with_reconnects connected_s) ''auth_info_s'' = Some 0
   \<and> pairings (session_run reliable ''s'' six_losses_with_reconnects connected_s) = 1
   \<and> scheduled (session_run reliable ''s'' six_losses_with_reconnects connected_s)
       = [(''s'', 2000), (''s'', 2000), (''s'', 2000), (''s'', 2000), (''s'', 2000), (''s'', 2000)]
   \<and> map_option reconnectAttempts
        (sessions (session_run reliable ''s'' (butlast six_losses_with_reconnects) connected_s) ''s'') = Some 1"
  by (simp add: sm_defs six_losses_with_reconnects_def)

text \<open>
  Only when the six losses reach the same session record, with no reconnect timer firing in
  between, does the sixth one remove the credentials and start a new pairing.
\<close>

lemma six_losses_at_once_regenerate:
  "sessions (session_run reliable ''s'' six_losses_at_once connected_s) ''s''
     = Some \<lparr>socket = 1, connected = False, reconnectAttempts = 0,
             authPath = ''auth_info_s'', qrCode = None\<rparr>
   \<and> authFolders (session_run reliable ''s'' six_losses_at_once connected_s) ''auth_info_s'' = Some 1
   \<and> scheduled (session_run reliable ''s'' six_losses_at_once connected_s)
       = [(''s'', 2000), (''s'', 4000), (''s'', 8000), (''s'', 16000), (''s'', 30000)]"
  by (simp add: sm_defs six_losses_at_once_def)

section \<open>Properties of the orchestrator\<close>

lemmas orch_defs = pollSupabaseForMessages_def processDripQueue_def getQueuedMessages_def
  lockHeld_def start_s_def queued_row_def working_def send_failing_def has_recipient_def queuedMessage_def
  js_or_def truthy_def enqueue_def dequeue_def sessionKey_def emptyMessageQueue_def isEmpty_def
  queue_size_def isConnected_def connected_s_def getSocket_def try_send_def sendMessage_def
  isPnUser_def markMessageSent_def markMessageFailed_def notify_message_def on_send_error_def
  config_queue_def entries_def Let_def one_retry_def polled_s_def

text \<open>
  C10. A tick for a session whose send lock is held, or whose connection is not in the
  connected state, returns the state it was given: nothing is dequeued, no queue changes,
  no call is made on a socket, no row of the storage is updated, no webhook is sent.
\<close>

theorem tick_guard_noop:
  "lockHeld (sendingLocks st) sessionId \<or> \<not> isConnected sessionId (sessionManager st)
   \<Longrightarrow> processDripQueue cfg srv sessionId st = st"
  by (auto simp: processDripQueue_def)

theorem tick_guard_noop_witness:
  "lockHeld (sendingLocks (polled_s\<lparr>sendingLocks := [''s'' \<mapsto> True]\<rparr>)) ''s''
   \<and> \<not> isEmpty ''s'' (messageQueue (polled_s\<lparr>sendingLocks := [''s'' \<mapsto> True]\<rparr>))
   \<and> processDripQueue config_queue working ''s'' (polled_s\<lparr>sendingLocks := [''s'' \<mapsto> True]\<rparr>)
       = polled_s\<lparr>sendingLocks := [''s'' \<mapsto> True]\<rparr>
   \<and> \<not> isConnected ''s'' (sessionManager (polled_s\<lparr>sessionManager := connectionUpdate reliable ''s'' link_lost connected_s\<rparr>))
   \<and> processDripQueue config_queue working ''s''
         (polled_s\<lparr>sessionManager := connectionUpdate reliable ''s'' link_lost connected_s\<rparr>)
       = polled_s\<lparr>sessionManager := connectionUpdate reliable ''s'' link_lost connected_s\<rparr>"
proof -
  have held: "lockHeld (sendingLocks (polled_s\<lparr>sendingLocks := [''s'' \<mapsto> True]\<rparr>)) ''s''"
    by (simp add: lockHeld_def)
  have filled: "\<not> isEmpty ''s'' (messageQueue (polled_s\<lparr>sendingLocks := [''s'' \<mapsto> True]\<rparr>))"
    by (simp add: orch_defs)
  have lost: "\<not> isConnected ''s'' (sessionManager (polled_s\<lparr>sessionManager := connectionUpdate reliable ''s'' link_lost connected_s\<rparr>))"
    by (simp add: isConnected_def sm_defs)
  from held filled lost
    tick_guard_noop [of "polled_s\<lparr>sendingLocks := [''s'' \<mapsto> True]\<rparr>" "''s''" config_queue working]
    tick_guard_noop [of "polled_s\<lparr>sessionManager := connectionUpdate reliable ''s'' link_lost connected_s\<rparr>" "''s''" config_queue working]
  show ?thesis by blast
qed

text \<open>
  A tick whose send throws while the retry counter is below the ceiling takes the message
  off the queue and puts nothing back; the storage is not touched.
\<close>

lemma failed_send_drops_message:
  assumes "\<not> lockHeld (sendingLocks st) sessionId"
    and "isConnected sessionId (sessionManager st)"
    and "queues (messageQueue st) sessionId = Some (message # rest)"
    and "truthy (js_or (q_jid message) (q_phoneNumber message))"
    and "socketSendError srv = Some errorMessage"
    and "q_retries message < maxRetries cfg"
  shows "queues (messageQueue (processDripQueue cfg srv sessionId st)) = (queues (messageQueue st))(sessionId \<mapsto> rest)
    \<and> messages (processDripQueue cfg srv sessionId st) = messages st"
proof -
  from assms(2) obtain sessionData where "sessions (sessionManager st) sessionId = Some sessionData"
    by (auto simp: isConnected_def split: option.splits)
  then have sock: "getSocket sessionId (sessionManager st) = Some (socket sessionData)"
    by (simp add: getSocket_def)
  show ?thesis
    using assms sock
    by (simp add: processDripQueue_def isEmpty_def queue_size_def dequeue_def try_send_def
        sendMessage_def on_send_error_def enqueue_def Let_def)
qed

text \<open>
  C1. With a ceiling of one retry and A, B, C enqueued in this order, the send of A throws on
  the first tick. The tick increments the retry counter and calls \<open>enqueue\<close>, which skips
  the message because \<open>dequeue\<close> has recorded its id as processed: the queue holds B and
  C only. The next two ticks send B and C, the fourth has nothing to do, and a later poll
  cannot bring A back. A is never sent again and its row stays QUEUED: three calls on the
  socket in all, and no completion order B, C, A.
\<close>

theorem retried_message_is_dropped:
  "map q_id (entries ''s'' (messageQueue polled_s)) = [''A'', ''B'', ''C'']
   \<and> map q_id (entries ''s'' (messageQueue (after_ticks 0))) = [''B'', ''C'']
   \<and> ''A'' \<in> processedIds (messageQueue (after_ticks 0))
   \<and> map (\<lambda>row. (m_id row, m_status row)) (messages (after_ticks 0))
        = [(''A'', QUEUED), (''B'', QUEUED), (''C'', QUEUED)]
   \<and> entries ''s'' (messageQueue (after_ticks 2)) = []
   \<and> after_ticks 3 = after_ticks 2
   \<and> map (\<lambda>row. (m_id row, m_status row)) (messages (after_ticks 3))
        = [(''A'', QUEUED), (''B'', SENT), (''C'', SENT)]
   \<and> map (\<lambda>(sock, jid, text). jid) (socketCalls (after_ticks 3))
        = [''391@s.whatsapp.net'', ''392@s.whatsapp.net'', ''393@s.whatsapp.net'']
   \<and> entries ''s'' (messageQueue (pollSupabaseForMessages working ''s'' (after_ticks 3))) = []"
  by (simp add: after_ticks_def orch_defs numeral_2_eq_2 numeral_3_eq_3)

lemma enqueue_entries:
  "q_id ` set (entries k (enqueue m mq)) \<subseteq> insert (q_id m) (q_id ` set (entries k mq))"
  by (auto simp: enqueue_def entries_def split: option.splits if_splits)

lemma poll_loop_queue:
  "q_id ` set (entries k (messageQueue (poll_loop srv sessionId ms st)))
     \<subseteq> q_id ` set (entries k (messageQueue st)) \<union> m_id ` {m \<in> set ms. has_recipient m}"
proof (induction ms arbitrary: st)
  case Nil
  then show ?case by simp
next
  case (Cons msg rest)
  show ?case
  proof (cases "has_recipient msg")
    case True
    have "q_id ` set (entries k (messageQueue (poll_loop srv sessionId (msg # rest) st)))
        \<subseteq> q_id ` set (entries k (enqueue (queuedMessage sessionId msg) (messageQueue st)))
            \<union> m_id ` {m \<in> set rest. has_recipient m}"
      using True Cons.IH [of "st\<lparr>messageQueue := enqueue (queuedMessage sessionId msg) (messageQueue st)\<rparr>"]
      by simp
    also have "\<dots> \<subseteq> insert (m_id msg) (q_id ` set (entries k (messageQueue st)))
            \<union> m_id ` {m \<in> set rest. has_recipient m}"
    proof -
      have "q_id (queuedMessage sessionId msg) = m_id msg"
        by (simp add: queuedMessage_def)
      with enqueue_entries [of k "queuedMessage sessionId msg" "messageQueue st"]
      show ?thesis by auto
    qed
    also have "\<dots> \<subseteq> q_id ` set (entries k (messageQueue st)) \<union> m_id ` {m \<in> set (msg # rest). has_recipient m}"
      using True by auto
    finally show ?thesis .
  next
    case False
    show ?thesis
    proof (cases "markMessageFailed srv (m_id msg) ''No recipient identifier provided'' (messages st)")
      case (Inl e)
      with False show ?thesis by auto
    next
      case (Inr table)
      with False Cons.IH [of "st\<lparr>messages := table\<rparr>"] show ?thesis by auto
    qed
  qed
qed

lemma getQueued_subset: "set (getQueuedMessages srv sessionId table) \<subseteq> set table"
  by (auto simp: getQueuedMessages_def dest: in_set_takeD)

lemma poll_loop_append:
  "\<forall>m \<in> set xs. \<not> has_recipient m \<longrightarrow> updateError srv (m_id m) = None
   \<Longrightarrow> poll_loop srv sessionId (xs @ ys) st = poll_loop srv sessionId ys (poll_loop srv sessionId xs st)"
  by (induction xs arbitrary: st) (simp_all add: markMessageFailed_def)

lemma poll_loop_ids:
  "map m_id (messages (poll_loop srv sessionId ms st)) = map m_id (messages st)"
proof (induction ms arbitrary: st)
  case Nil
  then show ?case by simp
next
  case (Cons msg rest)
  have same: "map m_id (map (\<lambda>row. if m_id row = i
        then row\<lparr>m_status := FAILED, m_error_message := Some reason\<rparr> else row) table) = map m_id table"
    for i reason and table :: "Message list"
    by (induction table) simp_all
  show ?case
  proof (cases "has_recipient msg")
    case True
    with Cons.IH [of "st\<lparr>messageQueue := enqueue (queuedMessage sessionId msg) (messageQueue st)\<rparr>"]
    show ?thesis by simp
  next
    case False
    show ?thesis
    proof (cases "updateError srv (m_id msg)")
      case None
      with False Cons.IH [of "st\<lparr>messages := map (\<lambda>row. if m_id row = m_id msg
          then row\<lparr>m_status := FAILED, m_error_message := Some ''No recipient identifier provided''\<rparr>
          else row) (messages st)\<rparr>"]
      show ?thesis by (simp add: markMessageFailed_def same)
    next
      case (Some e)
      with False show ?thesis by (simp add: markMessageFailed_def)
    qed
  qed
qed

lemma poll_loop_keeps_failed:
  "marked_failed i (messages st) \<Longrightarrow> marked_failed i (messages (poll_loop srv sessionId ms st))"
proof (induction ms arbitrary: st)
  case Nil
  then show ?case by simp
next
  case (Cons msg rest)
  show ?case
  proof (cases "has_recipient msg")
    case True
    with Cons.prems
      Cons.IH [of "st\<lparr>messageQueue := enqueue (queuedMessage sessionId msg) (messageQueue st)\<rparr>"]
    show ?thesis by simp
  next
    case False
    show ?thesis
    proof (cases "updateError srv (m_id msg)")
      case None
      let ?table = "map (\<lambda>row. if m_id row = m_id msg
          then row\<lparr>m_status := FAILED, m_error_message := Some ''No recipient identifier provided''\<rparr>
          else row) (messages st)"
      from Cons.prems have "marked_failed i ?table"
        by (auto simp: marked_failed_def)
      with Cons.IH [of "st\<lparr>messages := ?table\<rparr>"] False None show ?thesis
        by (simp add: markMessageFailed_def)
    next
      case (Some e)
      with False Cons.prems show ?thesis by (simp add: markMessageFailed_def)
    qed
  qed
qed

lemma rows_of_other_id:
  "i \<noteq> j \<Longrightarrow> filter (\<lambda>row. m_id row = i)
      (map (\<lambda>row. if m_id row = j then row\<lparr>m_status := FAILED, m_error_message := Some reason\<rparr> else row) table)
    = filter (\<lambda>row. m_id row = i) table"
  by (induction table) simp_all

lemma poll_loop_rejected_rows:
  "updateError srv i \<noteq> None \<Longrightarrow>
   filter (\<lambda>row. m_id row = i) (messages (poll_loop srv sessionId ms st))
     = filter (\<lambda>row. m_id row = i) (messages st)"
proof (induction ms arbitrary: st)
  case Nil
  then show ?case by simp
next
  case (Cons msg rest)
  show ?case
  proof (cases "has_recipient msg")
    case True
    with Cons.prems
      Cons.IH [of "st\<lparr>messageQueue := enqueue (queuedMessage sessionId msg) (messageQueue st)\<rparr>"]
    show ?thesis by simp
  next
    case False
    show ?thesis
    proof (cases "updateError srv (m_id msg)")
      case None
      with Cons.prems have differ: "i \<noteq> m_id msg" by auto
      let ?table = "map (\<lambda>row. if m_id row = m_id msg
          then row\<lparr>m_status := FAILED, m_error_message := Some ''No recipient identifier provided''\<rparr>
          else row) (messages st)"
      from Cons.IH [of "st\<lparr>messages := ?table\<rparr>"] Cons.prems False None
      have "filter (\<lambda>row. m_id row = i) (messages (poll_loop srv sessionId (msg # rest) st))
          = filter (\<lambda>row. m_id row = i) ?table"
        by (simp add: markMessageFailed_def)
      with differ show ?thesis by (simp add: rows_of_other_id)
    next
      case (Some e)
      with False show ?thesis by (simp add: markMessageFailed_def)
    qed
  qed
qed

text \<open>
  C8 (as amended). A polled row with neither \<open>jid\<close> nor \<open>phone_number\<close> (absent or
  empty) is not enqueued: after the poll every queue holds only ids it held before or ids of
  polled rows that have a recipient. When the poll runs and the storage accepts the update
  of this row and of the recipient-less rows polled before it, the row is in storage with
  status FAILED and the reason \<open>No recipient identifier provided\<close>, whatever happens to the
  rows after it. When the storage rejects the update of this row, the poll ends there: the
  result is that of the rows before it, the rows after it are not looked at, and the row is
  still in storage as it was, QUEUED.
\<close>

theorem no_recipient_marked_failed:
  assumes "getQueuedMessages srv sessionId (messages st) = earlier @ msg # later"
    and "\<not> has_recipient msg"
  shows "(\<forall>k. q_id ` set (entries k (messageQueue (pollSupabaseForMessages srv sessionId st)))
             \<subseteq> q_id ` set (entries k (messageQueue st))
                \<union> m_id ` {m \<in> set (getQueuedMessages srv sessionId (messages st)). has_recipient m})
    \<and> (\<not> lockHeld (pollingLocks st) sessionId
        \<and> updateError srv (m_id msg) = None
        \<and> (\<forall>m \<in> set earlier. \<not> has_recipient m \<longrightarrow> updateError srv (m_id m) = None)
        \<longrightarrow> (\<exists>row \<in> set (messages (pollSupabaseForMessages srv sessionId st)). m_id row = m_id msg)
          \<and> (\<forall>row \<in> set (messages (pollSupabaseForMessages srv sessionId st)).
                m_id row = m_id msg \<longrightarrow>
                  m_status row = FAILED \<and> m_error_message row = Some ''No recipient identifier provided''))
    \<and> (\<not> lockHeld (pollingLocks st) sessionId
        \<and> updateError srv (m_id msg) \<noteq> None
        \<and> (\<forall>m \<in> set earlier. \<not> has_recipient m \<longrightarrow> updateError srv (m_id m) = None)
        \<longrightarrow> pollSupabaseForMessages srv sessionId st
              = (poll_loop srv sessionId earlier (st\<lparr>pollingLocks := (pollingLocks st)(sessionId \<mapsto> True)\<rparr>))
                  \<lparr>pollingLocks := (pollingLocks st)(sessionId \<mapsto> False)\<rparr>
          \<and> msg \<in> set (messages (pollSupabaseForMessages srv sessionId st))
          \<and> m_status msg = QUEUED)"
proof -
  let ?polled = "getQueuedMessages srv sessionId (messages st)"
  let ?st1 = "st\<lparr>pollingLocks := (pollingLocks st)(sessionId \<mapsto> True)\<rparr>"
  let ?after = "pollSupabaseForMessages srv sessionId st"
  have locks: "pollingLocks (poll_loop srv sessionId ms s) = pollingLocks s" for ms s
    by (induction ms arbitrary: s) (simp_all split: sum.splits)
  have run: "?after = (poll_loop srv sessionId ?polled ?st1)\<lparr>pollingLocks := (pollingLocks st)(sessionId \<mapsto> False)\<rparr>"
    if "\<not> lockHeld (pollingLocks st) sessionId"
    using that by (simp add: pollSupabaseForMessages_def Let_def locks)
  from assms(1) have polled: "msg \<in> set ?polled"
    by simp
  then have stored: "msg \<in> set (messages st)"
    using getQueued_subset by blast
  from polled have queued: "m_status msg = QUEUED"
    by (auto simp: getQueuedMessages_def split: if_splits dest: in_set_takeD)
  have a: "\<forall>k. q_id ` set (entries k (messageQueue ?after))
             \<subseteq> q_id ` set (entries k (messageQueue st)) \<union> m_id ` {m \<in> set ?polled. has_recipient m}"
  proof (cases "lockHeld (pollingLocks st) sessionId")
    case True
    then show ?thesis by (simp add: pollSupabaseForMessages_def)
  next
    case False
    with poll_loop_queue [of _ srv sessionId ?polled ?st1] show ?thesis
      by (simp add: run)
  qed
  have b: "(\<exists>row \<in> set (messages ?after). m_id row = m_id msg)
          \<and> (\<forall>row \<in> set (messages ?after).
                m_id row = m_id msg \<longrightarrow>
                  m_status row = FAILED \<and> m_error_message row = Some ''No recipient identifier provided'')"
    if free: "\<not> lockHeld (pollingLocks st) sessionId"
      and mine: "updateError srv (m_id msg) = None"
      and before: "\<forall>m \<in> set earlier. \<not> has_recipient m \<longrightarrow> updateError srv (m_id m) = None"
  proof -
    let ?st2 = "poll_loop srv sessionId earlier ?st1"
    let ?table = "map (\<lambda>row. if m_id row = m_id msg
          then row\<lparr>m_status := FAILED, m_error_message := Some ''No recipient identifier provided''\<rparr>
          else row) (messages ?st2)"
    have "poll_loop srv sessionId ?polled ?st1 = poll_loop srv sessionId (msg # later) ?st2"
      unfolding assms(1) using before by (rule poll_loop_append)
    also have "\<dots> = poll_loop srv sessionId later (?st2\<lparr>messages := ?table\<rparr>)"
      using assms(2) mine by (simp add: markMessageFailed_def)
    finally have split: "messages ?after = messages (poll_loop srv sessionId later (?st2\<lparr>messages := ?table\<rparr>))"
      by (simp add: run [OF free])
    have "marked_failed (m_id msg) ?table"
      by (auto simp: marked_failed_def)
    then have "marked_failed (m_id msg) (messages ?after)"
      unfolding split using poll_loop_keeps_failed [of "m_id msg" "?st2\<lparr>messages := ?table\<rparr>"]
      by simp
    then have all: "\<forall>row \<in> set (messages ?after).
                m_id row = m_id msg \<longrightarrow>
                  m_status row = FAILED \<and> m_error_message row = Some ''No recipient identifier provided''"
      by (simp add: marked_failed_def)
    have "map m_id (messages ?after) = map m_id (messages st)"
      using poll_loop_ids [of srv sessionId ?polled ?st1] by (simp add: run [OF free])
    then have "m_id ` set (messages ?after) = m_id ` set (messages st)"
      by (metis set_map)
    with stored have "\<exists>row \<in> set (messages ?after). m_id row = m_id msg"
      by (metis (mono_tags, lifting) imageE imageI)
    with all show ?thesis by blast
  qed
  have c: "?after = (poll_loop srv sessionId earlier ?st1)\<lparr>pollingLocks := (pollingLocks st)(sessionId \<mapsto> False)\<rparr>
          \<and> msg \<in> set (messages ?after) \<and> m_status msg = QUEUED"
    if free: "\<not> lockHeld (pollingLocks st) sessionId"
      and mine: "updateError srv (m_id msg) \<noteq> None"
      and before: "\<forall>m \<in> set earlier. \<not> has_recipient m \<longrightarrow> updateError srv (m_id m) = None"
  proof -
    let ?st2 = "poll_loop srv sessionId earlier ?st1"
    have "poll_loop srv sessionId ?polled ?st1 = poll_loop srv sessionId (msg # later) ?st2"
      unfolding assms(1) using before by (rule poll_loop_append)
    also have "\<dots> = ?st2"
      using assms(2) mine by (auto simp: markMessageFailed_def)
    finally have ended: "?after = ?st2\<lparr>pollingLocks := (pollingLocks st)(sessionId \<mapsto> False)\<rparr>"
      by (simp add: run [OF free])
    have "filter (\<lambda>row. m_id row = m_id msg) (messages ?after)
        = filter (\<lambda>row. m_id row = m_id msg) (messages st)"
      using poll_loop_rejected_rows [OF mine, of sessionId ?polled ?st1] by (simp add: run [OF free])
    moreover from stored have "msg \<in> set (filter (\<lambda>row. m_id row = m_id msg) (messages st))"
      by simp
    ultimately have "msg \<in> set (filter (\<lambda>row. m_id row = m_id msg) (messages ?after))"
      by simp
    then have "msg \<in> set (messages ?after)"
      by simp
    with ended queued show ?thesis by blast
  qed
  from a b c show ?thesis by blast
qed

theorem no_recipient_marked_failed_witness:
  "getQueuedMessages rejecting_N2 ''s'' (messages two_unaddressed)
     = [] @ queued_row ''N1'' None 1 # [queued_row ''N2'' None 2]
   \<and> \<not> has_recipient (queued_row ''N1'' None 1)
   \<and> \<not> has_recipient (queued_row ''N2'' None 2)
   \<and> \<not> lockHeld (pollingLocks two_unaddressed) ''s''
   \<and> updateError rejecting_N2 (m_id (queued_row ''N1'' None 1)) = None
   \<and> updateError rejecting_N2 (m_id (queued_row ''N2'' None 2)) \<noteq> None
   \<and> entries ''s'' (messageQueue (pollSupabaseForMessages rejecting_N2 ''s'' two_unaddressed)) = []
   \<and> queued_row ''N2'' None 2 \<in> set (messages (pollSupabaseForMessages rejecting_N2 ''s'' two_unaddressed))
   \<and> map (\<lambda>row. (m_id row, m_status row, m_error_message row))
        (messages (pollSupabaseForMessages rejecting_N2 ''s'' two_unaddressed))
       = [(''N1'', FAILED, Some ''No recipient identifier provided''), (''N2'', QUEUED, None)]"
proof -
  have p1: "getQueuedMessages rejecting_N2 ''s'' (messages two_unaddressed)
     = [] @ queued_row ''N1'' None 1 # [queued_row ''N2'' None 2]"
    by (simp add: orch_defs two_unaddressed_def rejecting_N2_def)
  then have p2: "getQueuedMessages rejecting_N2 ''s'' (messages two_unaddressed)
     = [queued_row ''N1'' None 1] @ queued_row ''N2'' None 2 # []"
    by simp
  have r1: "\<not> has_recipient (queued_row ''N1'' None 1)"
    and r2: "\<not> has_recipient (queued_row ''N2'' None 2)"
    by (simp_all add: orch_defs)
  have l: "\<not> lockHeld (pollingLocks two_unaddressed) ''s''"
    by (simp add: lockHeld_def two_unaddressed_def start_s_def)
  have u1: "updateError rejecting_N2 (m_id (queued_row ''N1'' None 1)) = None"
    and u2: "updateError rejecting_N2 (m_id (queued_row ''N2'' None 2)) \<noteq> None"
    by (simp_all add: rejecting_N2_def working_def queued_row_def)
  have e: "\<forall>m \<in> set [queued_row ''N1'' None 1]. \<not> has_recipient m \<longrightarrow> updateError rejecting_N2 (m_id m) = None"
    using u1 by simp
  have kept: "queued_row ''N2'' None 2 \<in> set (messages (pollSupabaseForMessages rejecting_N2 ''s'' two_unaddressed))"
    using no_recipient_marked_failed [OF p2 r2] l u2 e by blast
  have q: "entries ''s'' (messageQueue (pollSupabaseForMessages rejecting_N2 ''s'' two_unaddressed)) = []"
    by (simp add: orch_defs two_unaddressed_def rejecting_N2_def)
  have t: "map (\<lambda>row. (m_id row, m_status row, m_error_message row))
        (messages (pollSupabaseForMessages rejecting_N2 ''s'' two_unaddressed))
       = [(''N1'', FAILED, Some ''No recipient identifier provided''), (''N2'', QUEUED, None)]"
    using no_recipient_marked_failed [OF p1 r1]
    by (simp add: orch_defs two_unaddressed_def rejecting_N2_def)
  from p1 r1 r2 l u1 u2 q kept t show ?thesis by blast
qed

text \<open>
  When the storage rejects the update, the row without recipient stays QUEUED with no reason
  recorded, and the rest of the batch is not looked at.
\<close>

theorem no_recipient_storage_counterexample:
  "getQueuedMessages storage_down ''s'' (messages unaddressed)
     = [queued_row ''N'' None 1, queued_row ''A'' (Some ''391'') 2]
   \<and> \<not> has_recipient (queued_row ''N'' None 1)
   \<and> map (\<lambda>row. (m_id row, m_status row, m_error_message row))
        (messages (pollSupabaseForMessages storage_down ''s'' unaddressed))
       = [(''N'', QUEUED, None), (''A'', QUEUED, None)]"
  by (simp add: orch_defs unaddressed_def storage_down_def)

end
